theory Spec2Isabelle
  imports Complex_Main "HOL-Library.Sublist"
begin

section \<open>Python strings\<close>

text \<open>
  A Python \<open>str\<close> is modelled as a \<open>string\<close> whose characters are the code points
  0..255 (Latin-1). \<open>str.lower\<close> changes exactly the code points 65..90 and
  192..222 except 215 in that range, each by adding 32.
\<close>

definition lower_char :: "char \<Rightarrow> char" where
  "lower_char c =
     (let n = (of_char c :: nat)
      in if (65 \<le> n \<and> n \<le> 90) \<or> (192 \<le> n \<and> n \<le> 222 \<and> n \<noteq> 215)
         then char_of (n + 32) else c)"

definition py_lower :: "string \<Rightarrow> string" where
  "py_lower s = map lower_char s"

text \<open>\<open>a.startswith(b)\<close> is \<open>prefix b a\<close>; \<open>b in a\<close> on strings is \<open>py_in b a\<close>.\<close>

fun py_in :: "string \<Rightarrow> string \<Rightarrow> bool" where
  "py_in c [] = (c = [])"
| "py_in c (x # xs) = (prefix c (x # xs) \<or> py_in c xs)"

section \<open>mcp_client.py: tool-name resolution\<close>

text \<open>
  One pass of \<open>for i, ln in enumerate(low_names): if P(ln): return names[i]\<close>:
  the first name whose lower-cased form satisfies the test.
\<close>

definition first_match :: "(string \<Rightarrow> bool) \<Rightarrow> string list \<Rightarrow> string option" where
  "first_match P names =
     map_option fst (find (\<lambda>(n, ln). P ln) (zip names (map py_lower names)))"

text \<open>\<open>PlaywrightMCP._match_tool\<close>, with \<open>names = self.list_tool_names()\<close> made a parameter.\<close>

fun match_tool :: "string list \<Rightarrow> string list \<Rightarrow> string option" where
  "match_tool names [] = None"
| "match_tool names (c # cs) =
     (let c' = py_lower c in
      case first_match (prefix c') names of
        Some n \<Rightarrow> Some n
      | None \<Rightarrow>
          (case first_match (py_in c') names of
             Some n \<Rightarrow> Some n
           | None \<Rightarrow> match_tool names cs))"

section \<open>Python values\<close>

text \<open>
  The values that flow through the planner and the executor are what \<open>json.loads\<close>
  produces and what the code builds from literals: \<open>None\<close>, booleans, integers,
  floats, strings, lists and dictionaries with string keys. A dictionary is an
  association list read with \<open>map_of\<close> (the first binding of a key is the entry).
  Floats are represented by their rational value.
\<close>

datatype json =
    JNull
  | JBool bool
  | JInt int
  | JFloat rat
  | JStr string
  | JArr "json list"
  | JObj "(string \<times> json) list"

type_synonym pydict = "(string \<times> json) list"

text \<open>Python truthiness (\<open>if x\<close>, \<open>not x\<close>, \<open>x or y\<close>).\<close>

fun truthy :: "json \<Rightarrow> bool" where
  "truthy JNull = False"
| "truthy (JBool b) = b"
| "truthy (JInt i) = (i \<noteq> 0)"
| "truthy (JFloat r) = (r \<noteq> 0)"
| "truthy (JStr s) = (s \<noteq> [])"
| "truthy (JArr xs) = (xs \<noteq> [])"
| "truthy (JObj kv) = (kv \<noteq> [])"

text \<open>\<open>d.get(k)\<close>, \<open>d.get(k, default)\<close> and \<open>d[k] = v\<close>.\<close>

definition dget :: "pydict \<Rightarrow> string \<Rightarrow> json" where
  "dget d k = (case map_of d k of None \<Rightarrow> JNull | Some v \<Rightarrow> v)"

definition dget_default :: "pydict \<Rightarrow> string \<Rightarrow> json \<Rightarrow> json" where
  "dget_default d k dflt = (case map_of d k of None \<Rightarrow> dflt | Some v \<Rightarrow> v)"

fun dset :: "pydict \<Rightarrow> string \<Rightarrow> json \<Rightarrow> pydict" where
  "dset [] k v = [(k, v)]"
| "dset ((k', v') # kvs) k v = (if k' = k then (k, v) # kvs else (k', v') # dset kvs k v)"

text \<open>The exceptions (all subclasses of \<open>Exception\<close>) that the modelled code meets.\<close>

datatype exn =
    PWTimeout
  | RetryError exn
  | ValidationError
  | RuntimeError
  | AssertionError
  | AttributeError
  | TypeError
  | ValueError
  | Error string

section \<open>ai_agent.py: the plan schema\<close>

text \<open>
  The fragment of JSON Schema that \<open>ACTION_SCHEMA\<close> uses: \<open>type\<close>, \<open>items\<close> (a single
  schema), \<open>required\<close>, \<open>properties\<close> and \<open>enum\<close>. As in the \<open>jsonschema\<close> library,
  \<open>items\<close> constrains arrays only, \<open>required\<close> and \<open>properties\<close> constrain objects
  only, and the type \<open>number\<close> excludes booleans.
\<close>

datatype schema =
  Schema (sch_type: "string option") (sch_items: "schema option")
         (sch_required: "string list") (sch_properties: "(string \<times> schema) list")
         (sch_enum: "json list option")

fun is_type :: "string \<Rightarrow> json \<Rightarrow> bool" where
  "is_type t (JArr xs) = (t = ''array'')"
| "is_type t (JObj kv) = (t = ''object'')"
| "is_type t (JStr s) = (t = ''string'')"
| "is_type t (JInt i) = (t = ''number'' \<or> t = ''integer'')"
| "is_type t (JFloat r) = (t = ''number'' \<or> (t = ''integer'' \<and> of_int (floor r) = r))"
| "is_type t (JBool b) = (t = ''boolean'')"
| "is_type t JNull = (t = ''null'')"

fun validates :: "schema \<Rightarrow> json \<Rightarrow> bool" where
  "validates (Schema ty items req props en) inst =
     ((case ty of None \<Rightarrow> True | Some t \<Rightarrow> is_type t inst) \<and>
      (case en of None \<Rightarrow> True | Some es \<Rightarrow> inst \<in> set es) \<and>
      (case inst of
         JArr xs \<Rightarrow> (case items of None \<Rightarrow> True | Some s \<Rightarrow> list_all (validates s) xs)
       | JObj kv \<Rightarrow>
           list_all (\<lambda>k. map_of kv k \<noteq> None) req \<and>
           list_all (\<lambda>ks. case map_of kv (fst ks) of None \<Rightarrow> True
                                | Some v \<Rightarrow> validates (snd ks) v) props
       | _ \<Rightarrow> True))"

definition str_schema :: schema where
  "str_schema = Schema (Some ''string'') None [] [] None"

definition ACTION_SCHEMA :: schema where
  "ACTION_SCHEMA =
     Schema (Some ''array'')
       (Some (Schema (Some ''object'') None [''action'']
          [(''action'',
              Schema (Some ''string'') None [] []
                (Some [JStr ''goto'', JStr ''fill'', JStr ''click'', JStr ''press'',
                       JStr ''wait_for'', JStr ''extract'', JStr ''assert_text'',
                       JStr ''select_option'', JStr ''scroll'', JStr ''sleep''])),
           (''url'', str_schema),
           (''selector'', str_schema),
           (''role'', str_schema),
           (''name'', str_schema),
           (''value'', str_schema),
           (''assert'', str_schema),
           (''timeout_ms'', Schema (Some ''number'') None [] [] None)]
          None))
       [] [] None"

text \<open>\<open>validate(instance, schema)\<close> and \<open>_validator.validate(plan)\<close>: raise on an invalid instance.\<close>

definition validate :: "schema \<Rightarrow> json \<Rightarrow> exn + unit" where
  "validate sch inst = (if validates sch inst then Inr () else Inl ValidationError)"

section \<open>ai_agent.py: the planner\<close>

definition py_isspace :: "char \<Rightarrow> bool" where
  "py_isspace c =
     (let n = (of_char c :: nat)
      in (9 \<le> n \<and> n \<le> 13) \<or> (28 \<le> n \<and> n \<le> 32) \<or> n = 133 \<or> n = 160)"

definition py_strip :: "string \<Rightarrow> string" where
  "py_strip s = rev (dropWhile py_isspace (rev (dropWhile py_isspace s)))"

text \<open>\<open>s.find(c)\<close> and \<open>s.rfind(c)\<close> for a one-character \<open>c\<close>; \<open>None\<close> stands for \<open>-1\<close>.\<close>

fun py_find :: "char \<Rightarrow> string \<Rightarrow> nat option" where
  "py_find c [] = None"
| "py_find c (x # xs) = (if x = c then Some 0 else map_option Suc (py_find c xs))"

definition py_rfind :: "char \<Rightarrow> string \<Rightarrow> nat option" where
  "py_rfind c s = map_option (\<lambda>i. length s - 1 - i) (py_find c (rev s))"

text \<open>\<open>text[s:e + 1]\<close> for non-negative \<open>s\<close> and \<open>e\<close>.\<close>

definition slice_incl :: "string \<Rightarrow> nat \<Rightarrow> nat \<Rightarrow> string" where
  "slice_incl text s e = take (e + 1 - s) (drop s text)"

text \<open>
  What \<open>_try_gemini_plan\<close> reads from outside the program: the two environment
  variables, whether importing and configuring the client library succeeds, for each
  model identifier and request the outcome of
  \<open>getattr(model.generate_content([system, json.dumps(user)]), "text", "")\<close>
  (an exception, or the attribute, which may be \<open>None\<close>), and \<open>json.loads\<close>.
\<close>

record llm_env =
  getenv_GEMINI_API_KEY :: "string option"
  getenv_GOOGLE_API_KEY :: "string option"
  genai_configure :: "exn + unit"
  generate_text :: "string \<Rightarrow> json \<Rightarrow> exn + string option"
  json_loads :: "string \<Rightarrow> exn + json"

definition MODEL_CANDIDATES :: "string list" where
  "MODEL_CANDIDATES =
     [''models/gemini-2.5-flash'', ''models/gemini-2.5-flash-lite'', ''models/gemini-2.5-pro'']"

text \<open>
  \<open>any(step.get("action") == "extract" for step in plan)\<close>: the generator stops at the
  first hit; \<open>.get\<close> on a step that is not a dictionary raises.
\<close>

fun any_extract :: "json list \<Rightarrow> exn + bool" where
  "any_extract [] = Inr False"
| "any_extract (JObj kv # rest) =
     (if dget kv ''action'' = JStr ''extract'' then Inr True else any_extract rest)"
| "any_extract (_ # rest) = Inl AttributeError"

text \<open>
  The check runs after schema validation, so \<open>plan\<close> is a list there; on any other
  value the iteration or the \<open>.get\<close> fails.
\<close>

definition has_extract :: "json \<Rightarrow> exn + bool" where
  "has_extract plan = (case plan of JArr steps \<Rightarrow> any_extract steps | _ \<Rightarrow> Inl TypeError)"

text \<open>
  The body of the \<open>for mid in MODEL_CANDIDATES\<close> loop: \<open>Inr (Some plan)\<close> is the
  \<open>return\<close>, \<open>Inr None\<close> a \<open>continue\<close>, \<open>Inl e\<close> an exception (caught by the loop).
\<close>

definition extract_json_array :: "string \<Rightarrow> string option" where
  "extract_json_array text =
     (if prefix ''['' text then Some text
      else (case (py_find CHR ''['' text, py_rfind CHR '']'' text) of
              (Some s, Some e) \<Rightarrow> Some (slice_incl text s e)
            | _ \<Rightarrow> None))"

definition model_attempt :: "llm_env \<Rightarrow> string \<Rightarrow> json \<Rightarrow> exn + json option" where
  "model_attempt env mid user =
     (case generate_text env mid user of
        Inl e \<Rightarrow> Inl e
      | Inr t \<Rightarrow>
          (let text = py_strip (case t of None \<Rightarrow> [] | Some x \<Rightarrow> x) in
           if text = [] then Inr None
           else (case extract_json_array text of
                   None \<Rightarrow> Inr None
                 | Some text' \<Rightarrow>
                     (case json_loads env text' of
                        Inl e \<Rightarrow> Inl e
                      | Inr plan \<Rightarrow>
                          (case validate ACTION_SCHEMA plan of
                             Inl e \<Rightarrow> Inl e
                           | Inr _ \<Rightarrow>
                               (case has_extract plan of
                                  Inl e \<Rightarrow> Inl e
                                | Inr b \<Rightarrow> if b then Inr (Some plan) else Inr None))))))"

fun try_models :: "llm_env \<Rightarrow> json \<Rightarrow> string list \<Rightarrow> (json \<times> json) option" where
  "try_models env user [] = None"
| "try_models env user (mid # rest) =
     (case model_attempt env mid user of
        Inr (Some plan) \<Rightarrow> Some (plan, JObj [(''source'', JStr ''gemini''), (''model'', JStr mid)])
      | _ \<Rightarrow> try_models env user rest)"

definition try_gemini_plan :: "llm_env \<Rightarrow> string \<Rightarrow> json \<Rightarrow> (json \<times> json) option" where
  "try_gemini_plan env goal context =
     (let api_key = (case getenv_GEMINI_API_KEY env of
                       Some k \<Rightarrow> if k \<noteq> [] then Some k else getenv_GOOGLE_API_KEY env
                     | None \<Rightarrow> getenv_GOOGLE_API_KEY env)
      in if api_key = None \<or> api_key = Some [] then None
         else (case genai_configure env of
                 Inl e \<Rightarrow> None
               | Inr _ \<Rightarrow>
                   try_models env (JObj [(''goal'', JStr goal), (''context'', context)])
                     MODEL_CANDIDATES))"

definition fallback_plan :: "string \<Rightarrow> json \<Rightarrow> json" where
  "fallback_plan goal context =
     JArr [
       JObj [(''action'', JStr ''wait_for''), (''selector'', JStr ''input[placeholder*='Search' i]''),
             (''timeout_ms'', JInt 7000)],
       JObj [(''action'', JStr ''fill''), (''selector'', JStr ''input[placeholder*='Search' i]''),
             (''value'', JStr goal)],
       JObj [(''action'', JStr ''press''), (''selector'', JStr ''input[placeholder*='Search' i]''),
             (''value'', JStr ''Enter'')],
       JObj [(''action'', JStr ''wait_for''), (''selector'', JStr ''a[href*='/d/']''),
             (''timeout_ms'', JInt 15000)],
       JObj [(''action'', JStr ''extract''), (''selector'', JStr ''a[href*='/d/']'')]]"

definition fallback_meta :: json where
  "fallback_meta = JObj [(''source'', JStr ''fallback''), (''model'', JNull)]"

text \<open>\<open>plan_actions_via_llm_mcp\<close>; only \<open>ValidationError\<close> is caught around the final check.\<close>

definition plan_actions_via_llm_mcp :: "llm_env \<Rightarrow> string \<Rightarrow> json \<Rightarrow> exn + (json \<times> json)" where
  "plan_actions_via_llm_mcp env goal context =
     (let (plan, meta) = (case try_gemini_plan env goal context of
                            Some pm \<Rightarrow> pm
                          | None \<Rightarrow> (fallback_plan goal context, fallback_meta))
      in case validate ACTION_SCHEMA plan of
           Inr _ \<Rightarrow> Inr (plan, meta)
         | Inl ValidationError \<Rightarrow> Inr (fallback_plan goal context, fallback_meta)
         | Inl e \<Rightarrow> Inl e)"

section \<open>ai_agent.py: the executor\<close>

text \<open>
  The live browser page is outside the program. Its state is a value of an arbitrary
  type \<open>'p\<close>; every Playwright call takes the state, returns the next one, and either
  returns a value or raises. A locator is described by how \<open>_loc\<close> and the callers
  build it; building a locator does not touch the page.
\<close>

datatype locator =
    ByRole json json
  | SelectorFirst json
  | SelectorNth string nat

text \<open>
  The accessibility tree that \<open>page.accessibility.snapshot()\<close> returns: a node has a
  role, possibly a name, and children.
\<close>

datatype axnode = AxNode (ax_role: string) (ax_name: "string option") (ax_children: "axnode list")

record 'p driver =
  b_start :: "'p \<Rightarrow> (exn + unit) \<times> 'p"
  b_launch :: "'p \<Rightarrow> (exn + unit) \<times> 'p"
  b_new_page :: "'p \<Rightarrow> (exn + unit) \<times> 'p"
  b_close :: "'p \<Rightarrow> (exn + unit) \<times> 'p"
  b_stop :: "'p \<Rightarrow> (exn + unit) \<times> 'p"
  d_url :: "'p \<Rightarrow> string"
  d_goto :: "json \<Rightarrow> 'p \<Rightarrow> (exn + unit) \<times> 'p"
  d_wait_for_load_state :: "nat \<Rightarrow> 'p \<Rightarrow> (exn + unit) \<times> 'p"
  d_wait_for :: "locator \<Rightarrow> json \<Rightarrow> 'p \<Rightarrow> (exn + unit) \<times> 'p"
  d_fill :: "locator \<Rightarrow> json \<Rightarrow> 'p \<Rightarrow> (exn + unit) \<times> 'p"
  d_click :: "locator \<Rightarrow> 'p \<Rightarrow> (exn + unit) \<times> 'p"
  d_press :: "locator \<Rightarrow> json \<Rightarrow> 'p \<Rightarrow> (exn + unit) \<times> 'p"
  d_mouse_wheel :: "int \<Rightarrow> int \<Rightarrow> 'p \<Rightarrow> (exn + unit) \<times> 'p"
  d_inner_text :: "locator \<Rightarrow> 'p \<Rightarrow> (exn + string) \<times> 'p"
  d_get_attribute :: "locator \<Rightarrow> string \<Rightarrow> 'p \<Rightarrow> (exn + string option) \<times> 'p"
  d_count :: "string \<Rightarrow> 'p \<Rightarrow> (exn + nat) \<times> 'p"
  d_all :: "string \<Rightarrow> 'p \<Rightarrow> (exn + nat) \<times> 'p"
  d_ax_snapshot :: "'p \<Rightarrow> (exn + axnode option) \<times> 'p"
  d_eval_testids :: "'p \<Rightarrow> (exn + json) \<times> 'p"
  d_sleep :: "rat \<Rightarrow> 'p \<Rightarrow> (exn + unit) \<times> 'p"
  d_backoff :: "nat \<Rightarrow> 'p \<Rightarrow> 'p"
  d_int_of_str :: "string \<Rightarrow> exn + int"

text \<open>
  \<open>b_start\<close> and \<open>b_stop\<close> are entering and leaving \<open>with sync_playwright()\<close>,
  \<open>b_launch\<close>, \<open>b_new_page\<close> and \<open>b_close\<close> are \<open>p.chromium.launch\<close>,
  \<open>browser.new_page\<close> and \<open>browser.close\<close>. \<open>d_all sel\<close> is the number of locators
  that \<open>page.locator(sel).all()\<close> returns (the \<open>i\<close>-th is \<open>SelectorNth sel i\<close>),
  \<open>d_eval_testids\<close> the \<open>eval_on_selector_all\<close> call of the context builder.
\<close>

text \<open>
  \<open>d_sleep\<close> is \<open>time.sleep\<close> (which raises on a negative argument), \<open>d_backoff n\<close> the
  pause that the retry decorator makes after failed attempt \<open>n\<close>, and \<open>d_int_of_str\<close>
  is \<open>int\<close> on a string.
\<close>

definition loc :: "pydict \<Rightarrow> exn + locator" where
  "loc step =
     (let role = dget step ''role''; name = dget step ''name'' in
      if truthy role \<and> truthy name then Inr (ByRole role name)
      else (let sel = dget step ''selector'' in
            if truthy sel then Inr (SelectorFirst sel) else Inl RuntimeError))"

text \<open>
  The decorator \<open>@retry(stop=stop_after_attempt(n), wait=wait_exponential(...))\<close> of the
  library tenacity, with its defaults: every exception of an attempt is retried; when
  the last allowed attempt fails, the decorator raises \<open>RetryError\<close> wrapping that
  attempt's exception (\<open>reraise\<close> is off unless asked for, and the source does not ask).
  \<open>tenacity_retry m k\<close> runs attempt number \<open>k\<close> with \<open>m\<close> more attempts allowed after it.
\<close>

fun tenacity_retry ::
  "nat \<Rightarrow> nat \<Rightarrow> (nat \<Rightarrow> 'p \<Rightarrow> 'p) \<Rightarrow> ('p \<Rightarrow> (exn + 'a) \<times> 'p) \<Rightarrow> 'p \<Rightarrow> (exn + 'a) \<times> 'p" where
  "tenacity_retry 0 k pause f p =
     (case f p of
        (Inr v, p') \<Rightarrow> (Inr v, p')
      | (Inl e, p') \<Rightarrow> (Inl (RetryError e), p'))"
| "tenacity_retry (Suc m) k pause f p =
     (case f p of
        (Inr v, p') \<Rightarrow> (Inr v, p')
      | (Inl e, p') \<Rightarrow> tenacity_retry m (Suc k) pause f (pause k p'))"

definition stop_after_attempt :: "nat \<Rightarrow> (nat \<Rightarrow> 'p \<Rightarrow> 'p) \<Rightarrow> ('p \<Rightarrow> (exn + 'a) \<times> 'p) \<Rightarrow> 'p \<Rightarrow> (exn + 'a) \<times> 'p" where
  "stop_after_attempt n pause f p = tenacity_retry (n - 1) 1 pause f p"

text \<open>The undecorated bodies of the action helpers.\<close>

definition wait_for_body :: "'p driver \<Rightarrow> pydict \<Rightarrow> 'p \<Rightarrow> (exn + unit) \<times> 'p" where
  "wait_for_body d step p =
     (case loc step of
        Inl e \<Rightarrow> (Inl e, p)
      | Inr l \<Rightarrow> d_wait_for d l (dget_default step ''timeout_ms'' (JInt 7000)) p)"

definition fill_body :: "'p driver \<Rightarrow> pydict \<Rightarrow> 'p \<Rightarrow> (exn + unit) \<times> 'p" where
  "fill_body d step p =
     (case loc step of
        Inl e \<Rightarrow> (Inl e, p)
      | Inr l \<Rightarrow> d_fill d l (dget_default step ''value'' (JStr [])) p)"

definition click_body :: "'p driver \<Rightarrow> pydict \<Rightarrow> 'p \<Rightarrow> (exn + unit) \<times> 'p" where
  "click_body d step p =
     (case loc step of
        Inl e \<Rightarrow> (Inl e, p)
      | Inr l \<Rightarrow> d_click d l p)"

definition do_wait_for :: "'p driver \<Rightarrow> pydict \<Rightarrow> 'p \<Rightarrow> (exn + unit) \<times> 'p" where
  "do_wait_for d step p = stop_after_attempt 3 (d_backoff d) (wait_for_body d step) p"

definition do_goto :: "'p driver \<Rightarrow> pydict \<Rightarrow> 'p \<Rightarrow> (exn + unit) \<times> 'p" where
  "do_goto d step p =
     (let url = dget step ''url'' in
      if \<not> truthy url then (Inl RuntimeError, p) else d_goto d url p)"

definition do_fill :: "'p driver \<Rightarrow> pydict \<Rightarrow> 'p \<Rightarrow> (exn + unit) \<times> 'p" where
  "do_fill d step p = stop_after_attempt 2 (d_backoff d) (fill_body d step) p"

definition do_click :: "'p driver \<Rightarrow> pydict \<Rightarrow> 'p \<Rightarrow> (exn + unit) \<times> 'p" where
  "do_click d step p = stop_after_attempt 2 (d_backoff d) (click_body d step) p"

definition do_press :: "'p driver \<Rightarrow> pydict \<Rightarrow> 'p \<Rightarrow> (exn + unit) \<times> 'p" where
  "do_press d step p =
     (case loc step of
        Inl e \<Rightarrow> (Inl e, p)
      | Inr l \<Rightarrow> d_press d l (dget_default step ''value'' (JStr ''Enter'')) p)"

definition do_scroll :: "'p driver \<Rightarrow> pydict \<Rightarrow> 'p \<Rightarrow> (exn + unit) \<times> 'p" where
  "do_scroll d step p =
     (case d_mouse_wheel d 0 1200 p of
        (Inl e, p1) \<Rightarrow> (Inl e, p1)
      | (Inr _, p1) \<Rightarrow> d_sleep d (3 / 10) p1)"

text \<open>Python's \<open>int(x)\<close>: floats are truncated towards zero.\<close>

definition py_int :: "'p driver \<Rightarrow> json \<Rightarrow> exn + int" where
  "py_int d v =
     (case v of
        JInt i \<Rightarrow> Inr i
      | JBool b \<Rightarrow> Inr (if b then 1 else 0)
      | JFloat r \<Rightarrow> Inr (if 0 \<le> r then floor r else ceiling r)
      | JStr s \<Rightarrow> d_int_of_str d s
      | _ \<Rightarrow> Inl TypeError)"

definition do_sleep :: "'p driver \<Rightarrow> pydict \<Rightarrow> 'p \<Rightarrow> (exn + unit) \<times> 'p" where
  "do_sleep d step p =
     (case py_int d (dget_default step ''timeout_ms'' (JInt 500)) of
        Inl e \<Rightarrow> (Inl e, p)
      | Inr ms \<Rightarrow> d_sleep d (of_int ms / 1000) p)"

definition do_assert_text :: "'p driver \<Rightarrow> pydict \<Rightarrow> 'p \<Rightarrow> (exn + unit) \<times> 'p" where
  "do_assert_text d step p =
     (case loc step of
        Inl e \<Rightarrow> (Inl e, p)
      | Inr l \<Rightarrow>
          (let expected = dget_default step ''assert'' (JStr []) in
           case d_inner_text d l p of
             (Inl e, p1) \<Rightarrow> (Inl e, p1)
           | (Inr t, p1) \<Rightarrow>
               (case expected of
                  JStr ex \<Rightarrow> if \<not> py_in ex (py_strip t) then (Inl AssertionError, p1)
                             else (Inr (), p1)
                | _ \<Rightarrow> (Inl TypeError, p1))))"

definition replace_newlines :: "string \<Rightarrow> string" where
  "replace_newlines s = map (\<lambda>c. if c = CHR 0x0A then CHR '' '' else c) s"

definition absolutize :: "string \<Rightarrow> string" where
  "absolutize href =
     (if href \<noteq> [] \<and> \<not> prefix ''http'' href then ''https://data.lacity.org'' @ href else href)"

definition do_extract :: "'p driver \<Rightarrow> pydict \<Rightarrow> 'p \<Rightarrow> (exn + json) \<times> 'p" where
  "do_extract d step p =
     (case loc step of
        Inl e \<Rightarrow> (Inl e, p)
      | Inr l \<Rightarrow>
          (case d_inner_text d l p of
             (Inl e, p1) \<Rightarrow> (Inl e, p1)
           | (Inr t, p1) \<Rightarrow>
               (let text = replace_newlines (py_strip t) in
                case d_get_attribute d l ''href'' p1 of
                  (Inl e, p2) \<Rightarrow> (Inr (JObj [(''text'', JStr text), (''href'', JNull)]), p2)
                | (Inr None, p2) \<Rightarrow> (Inr (JObj [(''text'', JStr text), (''href'', JNull)]), p2)
                | (Inr (Some h), p2) \<Rightarrow>
                    (Inr (JObj [(''text'', JStr text), (''href'', JStr (absolutize h))]), p2))))"

definition ACTION_MAP :: "(string \<times> ('p driver \<Rightarrow> pydict \<Rightarrow> 'p \<Rightarrow> (exn + unit) \<times> 'p)) list" where
  "ACTION_MAP =
     [(''goto'', do_goto),
      (''fill'', do_fill),
      (''click'', do_click),
      (''press'', do_press),
      (''wait_for'', do_wait_for),
      (''scroll'', do_scroll),
      (''sleep'', do_sleep),
      (''assert_text'', do_assert_text)]"

text \<open>\<open>ACTION_MAP.get(action)\<close>: a list or a dictionary is unhashable and raises.\<close>

definition action_map_get ::
  "json \<Rightarrow> exn + ('p driver \<Rightarrow> pydict \<Rightarrow> 'p \<Rightarrow> (exn + unit) \<times> 'p) option" where
  "action_map_get action =
     (case action of
        JStr a \<Rightarrow> Inr (map_of ACTION_MAP a)
      | JArr xs \<Rightarrow> Inl TypeError
      | JObj kv \<Rightarrow> Inl TypeError
      | _ \<Rightarrow> Inr None)"

text \<open>
  The settle wait after \<open>goto\<close> and \<open>click\<close>: only a timeout is caught.
\<close>

definition settle :: "'p driver \<Rightarrow> pydict \<Rightarrow> 'p \<Rightarrow> (exn + pydict) \<times> 'p" where
  "settle d result p =
     (case d_wait_for_load_state d 15000 p of
        (Inl PWTimeout, p') \<Rightarrow> (Inr result, p')
      | (Inl e, p') \<Rightarrow> (Inl e, p')
      | (Inr _, p') \<Rightarrow> (Inr result, p'))"

text \<open>
  The guarded call of a mapped action and what follows it in the loop body: a timeout
  is raised again, any other exception is dropped, and after \<open>goto\<close> and \<open>click\<close> the
  loop waits for the page to settle.
\<close>

definition run_mapped ::
  "'p driver \<Rightarrow> ('p driver \<Rightarrow> pydict \<Rightarrow> 'p \<Rightarrow> (exn + unit) \<times> 'p) \<Rightarrow> json \<Rightarrow> pydict \<Rightarrow> pydict \<Rightarrow> 'p
     \<Rightarrow> (exn + pydict) \<times> 'p" where
  "run_mapped d fn action kv result p =
     (case fn d kv p of
        (Inl PWTimeout, p1) \<Rightarrow> (Inl PWTimeout, p1)
      | (r, p1) \<Rightarrow>
          if action = JStr ''goto'' \<or> action = JStr ''click''
          then settle d result p1
          else (Inr result, p1))"

text \<open>
  One iteration of the loop of \<open>execute_steps\<close> on the current \<open>result\<close> dictionary:
  \<open>Inl e\<close> is an exception leaving \<open>execute_steps\<close>.
\<close>

definition exec_step :: "'p driver \<Rightarrow> pydict \<Rightarrow> 'p \<Rightarrow> json \<Rightarrow> (exn + pydict) \<times> 'p" where
  "exec_step d result p step =
     (case step of
        JObj kv \<Rightarrow>
          (let action = dget kv ''action'' in
           if \<not> truthy action then (Inr result, p)
           else if action = JStr ''extract'' then
             (case do_extract d kv p of
                (Inl e, p1) \<Rightarrow> (Inl e, p1)
              | (Inr cap, p1) \<Rightarrow> (Inr (dset result ''extracted'' cap), p1))
           else
             (case action_map_get action of
                Inl e \<Rightarrow> (Inl e, p)
              | Inr None \<Rightarrow> (Inr result, p)
              | Inr (Some fn) \<Rightarrow> run_mapped d fn action kv result p))
      | _ \<Rightarrow> (Inl AttributeError, p))"

fun exec_loop :: "'p driver \<Rightarrow> pydict \<Rightarrow> 'p \<Rightarrow> json list \<Rightarrow> (exn + pydict) \<times> 'p" where
  "exec_loop d result p [] = (Inr result, p)"
| "exec_loop d result p (step # rest) =
     (case exec_step d result p step of
        (Inl e, p1) \<Rightarrow> (Inl e, p1)
      | (Inr result1, p1) \<Rightarrow> exec_loop d result1 p1 rest)"

definition execute_steps :: "'p driver \<Rightarrow> 'p \<Rightarrow> json list \<Rightarrow> (exn + pydict) \<times> 'p" where
  "execute_steps d p steps = exec_loop d [(''extracted'', JNull)] p steps"

text \<open>The steps that \<open>execute_steps\<close> treats as extraction: \<open>action == "extract"\<close>.\<close>

definition is_extract_step :: "json \<Rightarrow> bool" where
  "is_extract_step step =
     (case step of JObj kv \<Rightarrow> dget kv ''action'' = JStr ''extract'' | _ \<Rightarrow> False)"

subsection \<open>A concrete page for evaluating the executor\<close>

text \<open>
  A page on which no awaited element ever becomes visible, every click hits a detached
  element (an error that is not a timeout) and navigation times out, while typing, key
  presses and reading the first result link work. Its state counts the Playwright calls
  made so far.
\<close>

definition stalled_page :: "nat driver" where
  "stalled_page =
     \<lparr> b_start = (\<lambda>p. (Inr (), p)),
       b_launch = (\<lambda>p. (Inr (), p)),
       b_new_page = (\<lambda>p. (Inr (), p)),
       b_close = (\<lambda>p. (Inr (), p)),
       b_stop = (\<lambda>p. (Inr (), p)),
       d_url = (\<lambda>p. ''https://data.lacity.org/''),
       d_goto = (\<lambda>u p. (Inl PWTimeout, Suc p)),
       d_wait_for_load_state = (\<lambda>t p. (Inr (), Suc p)),
       d_wait_for = (\<lambda>l t p. (Inl PWTimeout, Suc p)),
       d_fill = (\<lambda>l v p. (Inr (), Suc p)),
       d_click = (\<lambda>l p. (Inl (Error ''element is detached''), Suc p)),
       d_press = (\<lambda>l k p. (Inr (), Suc p)),
       d_mouse_wheel = (\<lambda>x y p. (Inr (), Suc p)),
       d_inner_text = (\<lambda>l p. (Inr ''Crime Data from 2020 to Present'', Suc p)),
       d_get_attribute = (\<lambda>l a p. (Inr (Some ''/d/2nrs-mtv8''), Suc p)),
       d_count = (\<lambda>s p. (Inr 1, Suc p)),
       d_all = (\<lambda>s p. (Inr 1, Suc p)),
       d_ax_snapshot =
         (\<lambda>p. (Inr (Some (AxNode ''WebArea'' (Some ''Los Angeles - Open Data Portal'')
                             [AxNode ''textbox'' (Some ''Search for Data'') [],
                              AxNode ''text'' (Some ''Explore'') [],
                              AxNode ''link'' (Some ''Sign In'') []])), Suc p)),
       d_eval_testids = (\<lambda>p. (Inr (JArr []), Suc p)),
       d_sleep = (\<lambda>s p. (Inr (), p)),
       d_backoff = (\<lambda>n p. p),
       d_int_of_str = (\<lambda>s. Inl ValueError) \<rparr>"

text \<open>
  A session whose browser cannot be launched and whose page, if there were one, answers
  every call with the error of a closed target.
\<close>

definition dead_browser :: "nat driver" where
  "dead_browser =
     \<lparr> b_start = (\<lambda>p. (Inr (), p)),
       b_launch = (\<lambda>p. (Inl (Error ''Executable does not exist''), p)),
       b_new_page = (\<lambda>p. (Inl (Error ''Target closed''), p)),
       b_close = (\<lambda>p. (Inr (), p)),
       b_stop = (\<lambda>p. (Inr (), p)),
       d_url = (\<lambda>p. ''about:blank''),
       d_goto = (\<lambda>u p. (Inl (Error ''Target closed''), Suc p)),
       d_wait_for_load_state = (\<lambda>t p. (Inl (Error ''Target closed''), Suc p)),
       d_wait_for = (\<lambda>l t p. (Inl (Error ''Target closed''), Suc p)),
       d_fill = (\<lambda>l v p. (Inl (Error ''Target closed''), Suc p)),
       d_click = (\<lambda>l p. (Inl (Error ''Target closed''), Suc p)),
       d_press = (\<lambda>l k p. (Inl (Error ''Target closed''), Suc p)),
       d_mouse_wheel = (\<lambda>x y p. (Inl (Error ''Target closed''), Suc p)),
       d_inner_text = (\<lambda>l p. (Inl (Error ''Target closed''), Suc p)),
       d_get_attribute = (\<lambda>l a p. (Inl (Error ''Target closed''), Suc p)),
       d_count = (\<lambda>s p. (Inl (Error ''Target closed''), Suc p)),
       d_all = (\<lambda>s p. (Inl (Error ''Target closed''), Suc p)),
       d_ax_snapshot = (\<lambda>p. (Inl (Error ''Target closed''), Suc p)),
       d_eval_testids = (\<lambda>p. (Inl (Error ''Target closed''), Suc p)),
       d_sleep = (\<lambda>s p. (Inr (), p)),
       d_backoff = (\<lambda>n p. p),
       d_int_of_str = (\<lambda>s. Inl ValueError) \<rparr>"

definition wait_results :: pydict where
  "wait_results =
     [(''action'', JStr ''wait_for''), (''selector'', JStr ''a[href*='/d/']''),
      (''timeout_ms'', JInt 15000)]"

definition click_submit :: pydict where
  "click_submit = [(''action'', JStr ''click''), (''selector'', JStr ''button[type='submit']'')]"

definition goto_browse :: pydict where
  "goto_browse = [(''action'', JStr ''goto''), (''url'', JStr ''https://data.lacity.org/browse'')]"

definition press_enter :: pydict where
  "press_enter =
     [(''action'', JStr ''press''), (''selector'', JStr ''input[placeholder*='Search' i]''),
      (''value'', JStr ''Enter'')]"

definition extract_first :: pydict where
  "extract_first = [(''action'', JStr ''extract''), (''selector'', JStr ''a[href*='/d/']'')]"

definition select_sort :: pydict where
  "select_sort =
     [(''action'', JStr ''select_option''), (''selector'', JStr ''select#sort''),
      (''value'', JStr ''newest'')]"

subsection \<open>A concrete planner environment\<close>

text \<open>No API key in either variable and no client library: the planner works offline.\<close>

definition offline_env :: llm_env where
  "offline_env =
     \<lparr> getenv_GEMINI_API_KEY = None,
       getenv_GOOGLE_API_KEY = None,
       genai_configure = Inl (Error ''No module named google.generativeai''),
       generate_text = (\<lambda>mid user. Inl (Error ''unreachable'')),
       json_loads = (\<lambda>s. Inl ValueError) \<rparr>"

section \<open>agent_cli.py: the keyword extractor\<close>

subsection \<open>Regular expressions\<close>

text \<open>
  The patterns of \<open>_extract_search_text\<close> are written as data and run by a
  backtracking matcher with the priorities of Python's \<open>re\<close>: alternatives left to
  right, quantifiers greedy. \<open>rx_match ic r s\<close> lists, best first, the rests of \<open>s\<close>
  after each way \<open>r\<close> can match at the start of \<open>s\<close>; \<open>ic\<close> is the flag \<open>re.I\<close>.
\<close>

datatype rx =
    REps
  | RChar char
  | RSet "char \<Rightarrow> bool"
  | RSeq rx rx
  | RAlt rx rx
  | ROpt rx
  | RStar rx

function rx_match :: "bool \<Rightarrow> rx \<Rightarrow> string \<Rightarrow> string list" where
  "rx_match ic REps s = [s]"
| "rx_match ic (RChar c) s =
     (case s of
        [] \<Rightarrow> []
      | x # xs \<Rightarrow> if (if ic then lower_char x = lower_char c else x = c) then [xs] else [])"
| "rx_match ic (RSet P) s =
     (case s of [] \<Rightarrow> [] | x # xs \<Rightarrow> if P x then [xs] else [])"
| "rx_match ic (RSeq a b) s = concat (map (rx_match ic b) (rx_match ic a s))"
| "rx_match ic (RAlt a b) s = rx_match ic a s @ rx_match ic b s"
| "rx_match ic (ROpt a) s = rx_match ic a s @ [s]"
| "rx_match ic (RStar a) s =
     concat (map (rx_match ic (RStar a))
               (filter (\<lambda>t. length t < length s) (rx_match ic a s))) @ [s]"
  by pat_completeness auto
termination
  by (relation "inv_image (less_than <*lex*> less_than) (\<lambda>(ic, r, s). (size r, length s))") auto

definition RPlus :: "rx \<Rightarrow> rx" where
  "RPlus a = RSeq a (RStar a)"

definition rx_lit :: "string \<Rightarrow> rx" where
  "rx_lit w = foldr (\<lambda>c r. RSeq (RChar c) r) w REps"

text \<open>
  \<open>re.findall\<close> and \<open>re.sub\<close> for patterns that cannot match the empty string (all
  the unanchored patterns of the source are of this kind): scan from the left, take
  the best match at the first position that has one, go on after it.
\<close>

function re_findall :: "bool \<Rightarrow> rx \<Rightarrow> string \<Rightarrow> string list" where
  "re_findall ic r s =
     (case s of
        [] \<Rightarrow> []
      | x # xs \<Rightarrow>
          (case filter (\<lambda>t. length t < length s) (take 1 (rx_match ic r s)) of
             rest # _ \<Rightarrow> take (length s - length rest) s # re_findall ic r rest
           | [] \<Rightarrow> re_findall ic r xs))"
  by pat_completeness auto
termination
  by (relation "measure (\<lambda>(ic, r, s). length s)")
     (auto dest!: arg_cong[where f = set])

function re_sub :: "bool \<Rightarrow> rx \<Rightarrow> string \<Rightarrow> string \<Rightarrow> string" where
  "re_sub ic r repl s =
     (case s of
        [] \<Rightarrow> []
      | x # xs \<Rightarrow>
          (case filter (\<lambda>t. length t < length s) (take 1 (rx_match ic r s)) of
             rest # _ \<Rightarrow> repl @ re_sub ic r repl rest
           | [] \<Rightarrow> x # re_sub ic r repl xs))"
  by pat_completeness auto
termination
  by (relation "measure (\<lambda>(ic, r, repl, s). length s)")
     (auto dest!: arg_cong[where f = set])

text \<open>
  \<open>re.sub\<close> for a pattern that starts with \<open>^\<close> (without \<open>re.M\<close>) and cannot match
  the empty string: the only possible match is at the start of the string.
\<close>

definition re_sub_at_start :: "bool \<Rightarrow> rx \<Rightarrow> string \<Rightarrow> string \<Rightarrow> string" where
  "re_sub_at_start ic r repl s =
     (case rx_match ic r s of [] \<Rightarrow> s | rest # _ \<Rightarrow> repl @ rest)"

definition rx_seq :: "rx list \<Rightarrow> rx" where
  "rx_seq rs = foldr RSeq rs REps"

fun rx_alt :: "rx list \<Rightarrow> rx" where
  "rx_alt [] = RSet (\<lambda>c. False)"
| "rx_alt [r] = r"
| "rx_alt (r # rs) = RAlt r (rx_alt rs)"

subsection \<open>The patterns of the source\<close>

text \<open>\<open>\s\<close> on a \<open>str\<close> pattern is Unicode white space, the characters of \<open>str.isspace\<close>.\<close>

definition rx_space :: rx where
  "rx_space = RSet py_isspace"

definition rx_spaces :: rx where
  "rx_spaces = RStar rx_space"

text \<open>\<open>"([^"]+)"|'([^']+)'\<close>\<close>

definition QUOTED_RX :: rx where
  "QUOTED_RX =
     RAlt (rx_seq [RChar (CHR 0x22), RPlus (RSet (\<lambda>c. c \<noteq> CHR 0x22)), RChar (CHR 0x22)])
          (rx_seq [RChar (CHR 0x27), RPlus (RSet (\<lambda>c. c \<noteq> CHR 0x27)), RChar (CHR 0x27)])"

text \<open>\<open>["']\<close>\<close>

definition QUOTE_CHAR_RX :: rx where
  "QUOTE_CHAR_RX = RSet (\<lambda>c. c = CHR 0x22 \<or> c = CHR 0x27)"

text \<open>
  \<open>^(i\s*(want|would\s*like|need)\s*(to\s*(know|see|find|search))?|tell\s*me|show\s*me|can\s*you\s*(find|show))\s*(about|for)?\s*\<close>,
  without the anchor, which \<open>re_sub_at_start\<close> supplies.
\<close>

definition FILLER_RX :: rx where
  "FILLER_RX =
     rx_seq
       [rx_alt
          [rx_seq [rx_lit ''i'', rx_spaces,
                   rx_alt [rx_lit ''want'',
                           rx_seq [rx_lit ''would'', rx_spaces, rx_lit ''like''],
                           rx_lit ''need''],
                   rx_spaces,
                   ROpt (rx_seq [rx_lit ''to'', rx_spaces,
                                 rx_alt [rx_lit ''know'', rx_lit ''see'', rx_lit ''find'',
                                         rx_lit ''search'']])],
           rx_seq [rx_lit ''tell'', rx_spaces, rx_lit ''me''],
           rx_seq [rx_lit ''show'', rx_spaces, rx_lit ''me''],
           rx_seq [rx_lit ''can'', rx_spaces, rx_lit ''you'', rx_spaces,
                   rx_alt [rx_lit ''find'', rx_lit ''show'']]],
        rx_spaces,
        ROpt (rx_alt [rx_lit ''about'', rx_lit ''for'']),
        rx_spaces]"

text \<open>\<open>[A-Za-z0-9\-]+\<close>\<close>

definition token_char :: "char \<Rightarrow> bool" where
  "token_char c =
     (let n = (of_char c :: nat)
      in (65 \<le> n \<and> n \<le> 90) \<or> (97 \<le> n \<and> n \<le> 122) \<or> (48 \<le> n \<and> n \<le> 57) \<or> n = 45)"

definition TOKEN_RX :: rx where
  "TOKEN_RX = RPlus (RSet token_char)"

subsection \<open>\<open>_extract_search_text\<close>\<close>

definition STOP :: "string list" where
  "STOP =
     [''the'', ''a'', ''an'', ''and'', ''or'', ''of'', ''on'', ''in'', ''for'', ''to'', ''from'',
      ''with'', ''about'', ''at'', ''by'', ''into'', ''is'', ''are'', ''was'', ''were'', ''be'',
      ''been'', ''being'', ''that'', ''this'', ''these'', ''those'', ''it'', ''its'', ''as'', ''i'',
      ''we'', ''you'', ''they'', ''he'', ''she'', ''them'', ''me'', ''my'', ''our'', ''your'',
      ''their'', ''want'', ''would'', ''like'', ''know'', ''find'', ''search'', ''see'', ''please'',
      ''dataset'', ''datasets'', ''data'']"

text \<open>
  \<open>str.upper\<close> is applied to the tokens only, which consist of ASCII letters, digits
  and hyphens.
\<close>

definition upper_char :: "char \<Rightarrow> char" where
  "upper_char c =
     (let n = (of_char c :: nat)
      in if 97 \<le> n \<and> n \<le> 122 then char_of (n - 32) else c)"

definition py_upper :: "string \<Rightarrow> string" where
  "py_upper s = map upper_char s"

text \<open>The body of the loop that fills \<open>cleaned\<close>: is the token appended?\<close>

definition keep_token :: "string \<Rightarrow> bool" where
  "keep_token t =
     (if py_lower t \<in> set STOP then False
      else if length t \<le> 2 \<and> py_upper t \<notin> set [''LA'', ''PD'', ''DPW''] then False
      else True)"

text \<open>De-duplication by lower-cased form, keeping the first occurrence.\<close>

fun dedupe :: "string list \<Rightarrow> string list \<Rightarrow> string list" where
  "dedupe seen [] = []"
| "dedupe seen (t # ts) =
     (if py_lower t \<in> set seen then dedupe seen ts
      else t # dedupe (py_lower t # seen) ts)"

text \<open>\<open>" ".join(xs)\<close>\<close>

fun join_space :: "string list \<Rightarrow> string" where
  "join_space [] = []"
| "join_space [x] = x"
| "join_space (x # xs) = x @ '' '' @ join_space xs"

text \<open>
  The list \<open>deduped\<close> as it stands before the final join. For a match of the quoted
  pattern, \<open>p[0] or p[1]\<close> is the text between the two quote characters.
\<close>

definition search_tokens :: "string \<Rightarrow> string list" where
  "search_tokens text =
     (let s0 = py_strip (re_sub False (RPlus rx_space) '' '' text);
          phrase_tokens = map (\<lambda>m. butlast (tl m)) (re_findall False QUOTED_RX s0);
          s1 = re_sub False QUOTE_CHAR_RX [] s0;
          s2 = re_sub_at_start True FILLER_RX [] s1;
          tokens = re_findall False TOKEN_RX s2;
          cleaned = filter keep_token tokens @ phrase_tokens;
          deduped = dedupe [] cleaned;
          deduped5 = (if length deduped > 5 then take 5 deduped else deduped)
      in map (\<lambda>t. if py_lower t = ''la'' then ''LA'' else t) deduped5)"

definition extract_search_text :: "string \<Rightarrow> string" where
  "extract_search_text text =
     (if text = [] then [] else py_strip (join_space (search_tokens text)))"

section \<open>ai_agent.py: the page context builder\<close>

subsection \<open>The remote path (mcp_client.py)\<close>

text \<open>
  What the remote path reads from outside the program: whether \<open>mcp_client\<close> can be
  imported, the variable \<open>MCP_PLAYWRIGHT_CMD\<close>, the outcome of splitting
  \<open>MCP_PLAYWRIGHT_ARGS\<close>, the outcome of opening the session (an exception, or the names
  of the discovered tools), and for a tool name and arguments the outcome of
  \<open>PlaywrightMCP.call\<close>. The session runs on its own thread against the server's own
  browser; the result or the exception is handed back to the caller, so the local page
  is not touched.
\<close>

record mcp_env =
  mcp_import :: "exn + unit"
  getenv_MCP_PLAYWRIGHT_CMD :: "string option"
  mcp_split_args :: "exn + string list"
  mcp_open :: "exn + string list"
  mcp_call :: "string \<Rightarrow> json \<Rightarrow> exn + json"

definition NAVIGATE_CANDIDATES :: "string list" where
  "NAVIGATE_CANDIDATES =
     [''playwright_navigate'', ''playwright.navigate'', ''page.navigate'', ''navigate'']"

definition SNAPSHOT_CANDIDATES :: "string list" where
  "SNAPSHOT_CANDIDATES =
     [''playwright_snapshot'', ''playwright.snapshot'', ''page.snapshot'', ''snapshot'']"

text \<open>\<open>PlaywrightMCP.navigate\<close>; \<open>if not name\<close> also rejects an empty tool name.\<close>

definition mcp_navigate :: "mcp_env \<Rightarrow> string list \<Rightarrow> string \<Rightarrow> exn + bool" where
  "mcp_navigate env tools url =
     (case match_tool tools NAVIGATE_CANDIDATES of
        None \<Rightarrow> Inr False
      | Some name \<Rightarrow>
          if name = [] then Inr False
          else (case mcp_call env name (JObj [(''url'', JStr url)]) of
                  Inl e \<Rightarrow> Inl e
                | Inr res \<Rightarrow> Inr True))"

text \<open>\<open>PlaywrightMCP.get_page_context\<close>; \<open>JNull\<close> is \<open>None\<close>.\<close>

definition mcp_get_page_context :: "mcp_env \<Rightarrow> string list \<Rightarrow> exn + json" where
  "mcp_get_page_context env tools =
     (case match_tool tools SNAPSHOT_CANDIDATES of
        None \<Rightarrow> Inr JNull
      | Some name \<Rightarrow>
          if name = [] then Inr JNull
          else (case mcp_call env name (JObj []) of
                  Inl e \<Rightarrow> Inl e
                | Inr data \<Rightarrow>
                    if \<not> truthy data then Inr JNull
                    else (case data of
                            JObj kv \<Rightarrow>
                              Inr (JObj [(''url'', dget_default kv ''url'' (JStr [])),
                                         (''elements'', dget_default kv ''elements'' (JArr [])),
                                         (''testids'', JArr []),
                                         (''hints'', JObj []),
                                         (''title'', dget_default kv ''title'' (JStr []))])
                          | _ \<Rightarrow> Inl AttributeError)))"

text \<open>
  The coroutine \<open>_run\<close>: a failing \<open>navigate\<close> is only reported; the value is that of
  \<open>get_page_context\<close>.
\<close>

definition mcp_run :: "mcp_env \<Rightarrow> string \<Rightarrow> exn + json" where
  "mcp_run env url =
     (case mcp_open env of
        Inl e \<Rightarrow> Inl e
      | Inr tools \<Rightarrow>
          (let ok = mcp_navigate env tools url
           in mcp_get_page_context env tools))"

text \<open>
  The \<open>try\<close> block of \<open>build_page_context\<close>: \<open>Inr (Some ctx)\<close> is its \<open>return data\<close>,
  \<open>Inr None\<close> falling through to the local path, \<open>Inl e\<close> an exception, which the
  \<open>except\<close> clause turns into falling through as well.
\<close>

definition remote_context :: "mcp_env \<Rightarrow> string \<Rightarrow> exn + json option" where
  "remote_context env url =
     (case mcp_import env of
        Inl e \<Rightarrow> Inl e
      | Inr _ \<Rightarrow>
          (case getenv_MCP_PLAYWRIGHT_CMD env of
             None \<Rightarrow> Inr None
           | Some cmd \<Rightarrow>
               if cmd = [] then Inr None
               else (case mcp_split_args env of
                       Inl e \<Rightarrow> Inl e
                     | Inr args \<Rightarrow>
                         (case mcp_run env url of
                            Inl e \<Rightarrow> Inl e
                          | Inr data \<Rightarrow>
                              (case data of
                                 JObj kv \<Rightarrow>
                                   if kv \<noteq> [] \<and> truthy (dget kv ''elements'')
                                   then Inr (Some (JObj (dset kv ''__source'' (JStr ''mcp''))))
                                   else Inr None
                               | _ \<Rightarrow> Inr None)))))"

subsection \<open>The local path\<close>

definition INTERACTIVE_ROLES :: "string list" where
  "INTERACTIVE_ROLES =
     [''textbox'', ''button'', ''link'', ''combobox'', ''menuitem'', ''checkbox'', ''radio'', ''img'']"

fun walk :: "axnode \<Rightarrow> json list" where
  "walk (AxNode role name children) =
     (if role \<in> set INTERACTIVE_ROLES
      then [JObj [(''role'', JStr role),
                  (''name'', (case name of None \<Rightarrow> JNull | Some n \<Rightarrow> JStr n))]]
      else [])
     @ concat (map walk children)"

definition SEARCH_BOX_SELECTOR :: string where
  "SEARCH_BOX_SELECTOR = ''input[placeholder*='Search' i], input[type='search']''"

definition SUBMIT_BTN_SELECTOR :: string where
  "SUBMIT_BTN_SELECTOR = ''button[type='submit'], button:has(svg)''"

text \<open>
  The part of \<open>build_page_context\<close> after the remote path. The snapshot and the
  test-id probe are guarded; the two \<open>count()\<close> probes are not.
\<close>

definition local_context :: "'p driver \<Rightarrow> string \<Rightarrow> 'p \<Rightarrow> (exn + json) \<times> 'p" where
  "local_context d url p =
     (let (ax, p1) = (case d_ax_snapshot d p of
                        (Inl e, p1) \<Rightarrow> (None, p1)
                      | (Inr a, p1) \<Rightarrow> (a, p1));
          elements = (case ax of None \<Rightarrow> [] | Some node \<Rightarrow> walk node);
          (testids, p2) = (case d_eval_testids d p1 of
                             (Inl e, p2) \<Rightarrow> (JArr [], p2)
                           | (Inr t, p2) \<Rightarrow> (if truthy t then t else JArr [], p2))
      in case d_count d SEARCH_BOX_SELECTOR p2 of
           (Inl e, p3) \<Rightarrow> (Inl e, p3)
         | (Inr n1, p3) \<Rightarrow>
             (case d_count d SUBMIT_BTN_SELECTOR p3 of
                (Inl e, p4) \<Rightarrow> (Inl e, p4)
              | (Inr n2, p4) \<Rightarrow>
                  (Inr (JObj [(''__source'', JStr ''local''),
                              (''url'', JStr url),
                              (''elements'', JArr elements),
                              (''testids'', testids),
                              (''hints'', JObj [(''has_search_box'', JBool (n1 > 0)),
                                                (''has_submit_btn'', JBool (n2 > 0))])]),
                   p4)))"

definition build_page_context :: "mcp_env \<Rightarrow> 'p driver \<Rightarrow> 'p \<Rightarrow> (exn + json) \<times> 'p" where
  "build_page_context env d p =
     (let url = d_url d p
      in case remote_context env url of
           Inr (Some data) \<Rightarrow> (Inr data, p)
         | _ \<Rightarrow> local_context d url p)"

text \<open>Environments for evaluation: no remote endpoint, and one that answers with no elements.\<close>

definition no_mcp :: mcp_env where
  "no_mcp =
     \<lparr> mcp_import = Inr (),
       getenv_MCP_PLAYWRIGHT_CMD = None,
       mcp_split_args = Inr [],
       mcp_open = Inl (Error ''unreachable''),
       mcp_call = (\<lambda>name args. Inl (Error ''unreachable'')) \<rparr>"

definition empty_mcp :: mcp_env where
  "empty_mcp =
     \<lparr> mcp_import = Inr (),
       getenv_MCP_PLAYWRIGHT_CMD = Some ''python3'',
       mcp_split_args = Inr [''mcp_server.py''],
       mcp_open = Inr [''playwright_navigate'', ''playwright_snapshot'',
                       ''playwright_click'', ''playwright_fill''],
       mcp_call = (\<lambda>name args.
          if name = ''playwright_snapshot''
          then Inr (JObj [(''url'', JStr ''https://data.lacity.org/''),
                          (''title'', JStr ''Open Data''), (''elements'', JArr [])])
          else Inr (JObj [(''ok'', JBool True)])) \<rparr>"

section \<open>agent_cli.py: the goal-processing flow\<close>

definition START_URL :: string where
  "START_URL = ''https://data.lacity.org/''"

definition RESULT_SELECTOR :: string where
  "RESULT_SELECTOR = ''a[href*='/d/']''"

text \<open>
  What \<open>run_goal\<close> reads from outside besides the page, the planner's environment and
  the remote path: \<open>urllib.parse.quote_plus\<close>, and with \<open>--debug\<close> the dump of the plan
  (\<open>json.dumps\<close> and \<open>_save_plan\<close>, which writes a file).
\<close>

record run_env =
  quote_plus :: "string \<Rightarrow> string"
  debug_dump :: "json \<Rightarrow> json \<Rightarrow> exn + unit"

text \<open>\<open>len(x)\<close>\<close>

definition py_len :: "json \<Rightarrow> exn + nat" where
  "py_len v =
     (case v of
        JStr s \<Rightarrow> Inr (length s)
      | JArr xs \<Rightarrow> Inr (length xs)
      | JObj kv \<Rightarrow> Inr (length kv)
      | _ \<Rightarrow> Inl TypeError)"

text \<open>
  The debug listing \<open>for elem in context["elements"][:5]: ... elem.get('role') ...\<close>:
  it raises unless the first five elements are dictionaries.
\<close>

definition debug_sample :: "json \<Rightarrow> exn + unit" where
  "debug_sample elements =
     (case elements of
        JArr xs \<Rightarrow> if list_all (\<lambda>e. case e of JObj kv \<Rightarrow> True | _ \<Rightarrow> False) (take 5 xs)
                   then Inr () else Inl AttributeError
      | JStr s \<Rightarrow> if s = [] then Inr () else Inl AttributeError
      | _ \<Rightarrow> Inl TypeError)"

text \<open>
  What the loop of step 4 does with the result of one executed step: \<open>Inr (Some hit)\<close>
  assigns \<open>first_hit\<close>, \<open>Inr None\<close> leaves it.
\<close>

definition hit_of_result :: "pydict \<Rightarrow> exn + json option" where
  "hit_of_result result =
     (let ex = dget result ''extracted'' in
      if \<not> truthy ex then Inr None
      else (case ex of
              JObj eh \<Rightarrow>
                if truthy (dget eh ''text'') \<and> truthy (dget eh ''href'')
                then (case dget eh ''href'' of
                        JStr h \<Rightarrow>
                          Inr (Some (JObj [(''title'', dget eh ''text''),
                                           (''url'', JStr (if prefix ''http'' h then h
                                                           else ''https://data.lacity.org'' @ h))]))
                      | _ \<Rightarrow> Inl AttributeError)
                else Inr None
            | _ \<Rightarrow> Inl AttributeError))"

text \<open>
  The loop of step 4. Reading \<open>step.get("action")\<close> is outside the inner \<open>try\<close>; an
  exception of \<open>execute_steps\<close> or of what follows it inside the \<open>try\<close> is reported and
  the loop goes on with the next step.
\<close>

fun run_steps ::
  "'p driver \<Rightarrow> bool \<Rightarrow> json \<Rightarrow> 'p \<Rightarrow> json list \<Rightarrow> (exn + json) \<times> 'p" where
  "run_steps d reread first_hit p [] = (Inr first_hit, p)"
| "run_steps d reread first_hit p (step # rest) =
     (case step of
        JObj kv \<Rightarrow>
          (let action = dget kv ''action'' in
           case execute_steps d p [step] of
             (Inl e, p1) \<Rightarrow> run_steps d reread first_hit p1 rest
           | (Inr result, p1) \<Rightarrow>
               (case hit_of_result result of
                  Inl e \<Rightarrow> run_steps d reread first_hit p1 rest
                | Inr upd \<Rightarrow>
                    (let first_hit1 = (case upd of None \<Rightarrow> first_hit | Some hit \<Rightarrow> hit) in
                     if reread \<and> (action = JStr ''press'' \<or> action = JStr ''click''
                                   \<or> action = JStr ''goto'')
                     then run_steps d reread first_hit1
                            (snd (d_wait_for_load_state d 5000 p1)) rest
                     else run_steps d reread first_hit1 p1 rest)))
      | _ \<Rightarrow> (Inl AttributeError, p))"

text \<open>One result item per anchor that has a title and an href; a failing read skips the anchor.\<close>

fun collect_results :: "'p driver \<Rightarrow> 'p \<Rightarrow> locator list \<Rightarrow> json list \<times> 'p" where
  "collect_results d p [] = ([], p)"
| "collect_results d p (a # as) =
     (case d_inner_text d a p of
        (Inl e, p1) \<Rightarrow> collect_results d p1 as
      | (Inr t, p1) \<Rightarrow>
          (let title = replace_newlines (py_strip t) in
           case d_get_attribute d a ''href'' p1 of
             (Inl e, p2) \<Rightarrow> collect_results d p2 as
           | (Inr href, p2) \<Rightarrow>
               (case href of
                  None \<Rightarrow> collect_results d p2 as
                | Some h \<Rightarrow>
                    if title = [] \<or> h = [] then collect_results d p2 as
                    else (let (items, p3) = collect_results d p2 as
                          in (JObj [(''title'', JStr title),
                                    (''url'', JStr (if prefix ''http'' h then h
                                                    else ''https://data.lacity.org'' @ h))]
                              # items, p3)))))"

text \<open>\<open>extract_first_result\<close>: returns \<open>(title, href or "")\<close>.\<close>

definition extract_first_result :: "'p driver \<Rightarrow> 'p \<Rightarrow> (exn + string \<times> string) \<times> 'p" where
  "extract_first_result d p =
     (case d_wait_for d (SelectorFirst (JStr RESULT_SELECTOR)) (JInt 15000) p of
        (Inl e, p1) \<Rightarrow> (Inl e, p1)
      | (Inr _, p1) \<Rightarrow>
          (case d_inner_text d (SelectorFirst (JStr RESULT_SELECTOR)) p1 of
             (Inl e, p2) \<Rightarrow> (Inl e, p2)
           | (Inr t, p2) \<Rightarrow>
               (case d_get_attribute d (SelectorFirst (JStr RESULT_SELECTOR)) ''href'' p2 of
                  (Inl e, p3) \<Rightarrow> (Inl e, p3)
                | (Inr href, p3) \<Rightarrow>
                    (Inr (replace_newlines (py_strip t),
                          (case href of None \<Rightarrow> [] | Some h \<Rightarrow> absolutize h)), p3))))"

text \<open>Step 5 of \<open>run_goal\<close>, from the check of the URL to the final list.\<close>

definition url_of_item :: "json \<Rightarrow> json" where
  "url_of_item r = (case r of JObj kv \<Rightarrow> dget kv ''url'' | _ \<Rightarrow> JNull)"

definition gather_results ::
  "'p driver \<Rightarrow> run_env \<Rightarrow> string \<Rightarrow> json \<Rightarrow> 'p \<Rightarrow> (exn + json list) \<times> 'p" where
  "gather_results d renv kw_goal first_hit p =
     (case (if \<not> py_in ''browse'' (d_url d p)
            then d_goto d (JStr (''https://data.lacity.org/browse?limitTo=datasets&q=''
                                  @ quote_plus renv kw_goal)) p
            else (Inr (), p)) of
        (Inl e, p1) \<Rightarrow> (Inl e, p1)
      | (Inr _, p1) \<Rightarrow>
          (let p2 = snd (d_wait_for d (SelectorFirst (JStr RESULT_SELECTOR)) (JInt 15000) p1);
               (n, p3) = (case d_all d RESULT_SELECTOR p2 of
                            (Inl e, p3) \<Rightarrow> (0, p3)
                          | (Inr n, p3) \<Rightarrow> (n, p3));
               (results, p4) =
                 collect_results d p3 (map (SelectorNth RESULT_SELECTOR) [0..<min n 10]);
               results1 =
                 (if truthy first_hit \<and>
                     list_all (\<lambda>r. url_of_item first_hit \<noteq> url_of_item r) results
                  then take 10 (first_hit # results) else results)
           in if results1 = []
              then (case extract_first_result d p4 of
                      (Inl e, p5) \<Rightarrow> (Inr [], p5)
                    | (Inr (title, url), p5) \<Rightarrow>
                        (if title \<noteq> [] \<and> url \<noteq> []
                         then (Inr [JObj [(''title'', JStr title), (''url'', JStr url)]], p5)
                         else (Inr [], p5)))
              else (Inr results1, p4)))"

text \<open>The body of the \<open>try\<close> block of \<open>run_goal\<close>.\<close>

definition run_body ::
  "'p driver \<Rightarrow> mcp_env \<Rightarrow> llm_env \<Rightarrow> run_env \<Rightarrow> bool \<Rightarrow> bool \<Rightarrow> string \<Rightarrow> 'p
     \<Rightarrow> (exn + json list) \<times> 'p" where
  "run_body d menv lenv renv debug reread goal p =
     (case d_goto d (JStr START_URL) p of
        (Inl e, p1) \<Rightarrow> (Inl e, p1)
      | (Inr _, p1) \<Rightarrow>
          (case build_page_context menv d p1 of
             (Inl e, p2) \<Rightarrow> (Inl e, p2)
           | (Inr context, p2) \<Rightarrow>
               (case context of
                  JObj ckv \<Rightarrow>
                    (let elements = dget_default ckv ''elements'' (JArr []) in
                     case py_len elements of
                       Inl e \<Rightarrow> (Inl e, p2)
                     | Inr n \<Rightarrow>
                         (case (if debug \<and> n > 0 then debug_sample elements else Inr ()) of
                            Inl e \<Rightarrow> (Inl e, p2)
                          | Inr _ \<Rightarrow>
                              (let kw_goal = extract_search_text goal in
                               case plan_actions_via_llm_mcp lenv kw_goal context of
                                 Inl e \<Rightarrow> (Inl e, p2)
                               | Inr (steps, meta) \<Rightarrow>
                                   (case (if debug then debug_dump renv steps meta else Inr ()) of
                                      Inl e \<Rightarrow> (Inl e, p2)
                                    | Inr _ \<Rightarrow>
                                        (case steps of
                                           JArr ss \<Rightarrow>
                                             (case run_steps d reread JNull p2 ss of
                                                (Inl e, p3) \<Rightarrow> (Inl e, p3)
                                              | (Inr first_hit, p3) \<Rightarrow>
                                                  gather_results d renv kw_goal first_hit p3)
                                         | _ \<Rightarrow> (Inl TypeError, p2))))))
                | _ \<Rightarrow> (Inl AttributeError, p2))))"

text \<open>
  \<open>run_goal\<close>: entering \<open>with sync_playwright()\<close>, the launch and the new page are
  before the \<open>try\<close>; both \<open>except\<close> clauses set \<open>results = []\<close>; \<open>finally\<close> closes the
  browser; leaving the \<open>with\<close> block stops Playwright on every path after the start.
\<close>

definition leave_with :: "'p driver \<Rightarrow> (exn + 'a) \<Rightarrow> 'p \<Rightarrow> (exn + 'a) \<times> 'p" where
  "leave_with d outcome p =
     (case b_stop d p of
        (Inl e, p') \<Rightarrow> (Inl e, p')
      | (Inr _, p') \<Rightarrow> (outcome, p'))"

definition run_goal ::
  "'p driver \<Rightarrow> mcp_env \<Rightarrow> llm_env \<Rightarrow> run_env \<Rightarrow> bool \<Rightarrow> bool \<Rightarrow> string \<Rightarrow> 'p
     \<Rightarrow> (exn + json list) \<times> 'p" where
  "run_goal d menv lenv renv debug reread goal p =
     (case b_start d p of
        (Inl e, p0) \<Rightarrow> (Inl e, p0)
      | (Inr _, p0) \<Rightarrow>
          (case b_launch d p0 of
             (Inl e, p1) \<Rightarrow> leave_with d (Inl e) p1
           | (Inr _, p1) \<Rightarrow>
               (case b_new_page d p1 of
                  (Inl e, p2) \<Rightarrow> leave_with d (Inl e) p2
                | (Inr _, p2) \<Rightarrow>
                    (let (body, p3) = run_body d menv lenv renv debug reread goal p2;
                         results = (case body of Inl e \<Rightarrow> [] | Inr rs \<Rightarrow> rs)
                     in case b_close d p3 of
                          (Inl e, p4) \<Rightarrow> leave_with d (Inl e) p4
                        | (Inr _, p4) \<Rightarrow> leave_with d (Inr results) p4))))"

definition plain_env :: run_env where
  "plain_env = \<lparr> quote_plus = map (\<lambda>c. if c = CHR '' '' then CHR ''+'' else c),
                 debug_dump = (\<lambda>steps meta. Inr ()) \<rparr>"

text \<open>
  A page on which everything works: the portal shows two result links, and the URL
  already is that of the results listing.
\<close>

definition results_page :: "nat driver" where
  "results_page =
     \<lparr> b_start = (\<lambda>p. (Inr (), p)),
       b_launch = (\<lambda>p. (Inr (), p)),
       b_new_page = (\<lambda>p. (Inr (), p)),
       b_close = (\<lambda>p. (Inr (), p)),
       b_stop = (\<lambda>p. (Inr (), p)),
       d_url = (\<lambda>p. ''https://data.lacity.org/browse?q=crimes+LA''),
       d_goto = (\<lambda>u p. (Inr (), Suc p)),
       d_wait_for_load_state = (\<lambda>t p. (Inr (), Suc p)),
       d_wait_for = (\<lambda>l t p. (Inr (), Suc p)),
       d_fill = (\<lambda>l v p. (Inr (), Suc p)),
       d_click = (\<lambda>l p. (Inr (), Suc p)),
       d_press = (\<lambda>l k p. (Inr (), Suc p)),
       d_mouse_wheel = (\<lambda>x y p. (Inr (), Suc p)),
       d_inner_text =
         (\<lambda>l p. (Inr (case l of SelectorNth s (Suc i) \<Rightarrow> ''Arrest Data from 2020 to Present''
                           | _ \<Rightarrow> ''Crime Data from 2020 to Present''), Suc p)),
       d_get_attribute =
         (\<lambda>l a p. (Inr (Some (case l of SelectorNth s (Suc i) \<Rightarrow> ''https://data.lacity.org/d/amvf-fr72''
                                 | _ \<Rightarrow> ''/d/2nrs-mtv8'')), Suc p)),
       d_count = (\<lambda>s p. (Inr 1, Suc p)),
       d_all = (\<lambda>s p. (Inr 2, Suc p)),
       d_ax_snapshot = (\<lambda>p. (Inr (Some (AxNode ''WebArea'' None [AxNode ''textbox'' (Some ''Search'') []])), Suc p)),
       d_eval_testids = (\<lambda>p. (Inr (JArr []), Suc p)),
       d_sleep = (\<lambda>s p. (Inr (), p)),
       d_backoff = (\<lambda>n p. p),
       d_int_of_str = (\<lambda>s. Inl ValueError) \<rparr>"

section \<open>Tool-name resolution: properties\<close>

lemma first_match_Nil: "first_match P [] = None"
  by (simp add: first_match_def)

lemma first_match_Cons:
  "first_match P (n # ns) = (if P (py_lower n) then Some n else first_match P ns)"
  by (simp add: first_match_def)

lemma first_match_None_iff:
  "first_match P names = None \<longleftrightarrow> (\<forall>n\<in>set names. \<not> P (py_lower n))"
  by (induction names) (simp_all add: first_match_Nil first_match_Cons)

lemma first_match_SomeD:
  "first_match P names = Some n \<Longrightarrow> n \<in> set names \<and> P (py_lower n)"
  by (induction names) (auto simp: first_match_Nil first_match_Cons split: if_splits)

lemma prefix_py_in: "prefix c s \<Longrightarrow> py_in c s"
  by (cases s) simp_all

lemma match_tool_Cons_None_iff:
  "match_tool names (c # cs) = None \<longleftrightarrow>
     first_match (py_in (py_lower c)) names = None \<and> match_tool names cs = None"
proof (cases "first_match (prefix (py_lower c)) names")
  case None
  then show ?thesis by (simp add: Let_def split: option.splits)
next
  case (Some m)
  then have "py_in (py_lower c) (py_lower m)" and "m \<in> set names"
    using first_match_SomeD prefix_py_in by blast+
  then have "first_match (py_in (py_lower c)) names \<noteq> None"
    by (auto simp: first_match_None_iff)
  with Some show ?thesis by (simp add: Let_def)
qed

lemma match_tool_None_iff:
  "match_tool names cands = None \<longleftrightarrow>
     (\<forall>c\<in>set cands. \<forall>n\<in>set names. \<not> py_in (py_lower c) (py_lower n))"
proof (induction cands)
  case Nil
  then show ?case by simp
next
  case (Cons c cs)
  show ?case
    unfolding match_tool_Cons_None_iff Cons.IH first_match_None_iff by simp
qed

lemma match_tool_skip:
  "\<forall>c\<in>set pre. \<forall>n\<in>set names. \<not> py_in (py_lower c) (py_lower n) \<Longrightarrow>
   match_tool names (pre @ cs) = match_tool names cs"
proof (induction pre)
  case Nil
  then show ?case by simp
next
  case (Cons c pre)
  then have a: "first_match (py_in (py_lower c)) names = None"
    by (simp add: first_match_None_iff)
  then have b: "first_match (prefix (py_lower c)) names = None"
    by (auto simp: first_match_None_iff dest: prefix_py_in)
  from Cons a b show ?case by (simp add: Let_def)
qed

lemma match_tool_decide:
  assumes "\<exists>n\<in>set names. py_in (py_lower c) (py_lower n)"
  shows "match_tool names (c # cs) =
          (if \<exists>n\<in>set names. prefix (py_lower c) (py_lower n)
           then first_match (prefix (py_lower c)) names
           else first_match (py_in (py_lower c)) names)"
proof (cases "first_match (prefix (py_lower c)) names")
  case None
  then have np: "\<not> (\<exists>n\<in>set names. prefix (py_lower c) (py_lower n))"
    by (simp add: first_match_None_iff)
  from assms obtain m where "first_match (py_in (py_lower c)) names = Some m"
    using first_match_None_iff[of "py_in (py_lower c)" names]
    by (cases "first_match (py_in (py_lower c)) names") auto
  with None np show ?thesis by (simp add: Let_def)
next
  case (Some m)
  then have "\<exists>n\<in>set names. prefix (py_lower c) (py_lower n)"
    using first_match_SomeD by blast
  with Some show ?thesis by (simp add: Let_def)
qed

section \<open>The planner: properties\<close>

lemma fallback_valid: "validates ACTION_SCHEMA (fallback_plan goal context)"
  by (simp add: ACTION_SCHEMA_def fallback_plan_def str_schema_def)

lemma fallback_has_extract: "has_extract (fallback_plan goal context) = Inr True"
  by (simp add: has_extract_def fallback_plan_def dget_def)

lemma model_attempt_some:
  "model_attempt env mid user = Inr (Some plan) \<Longrightarrow>
     validates ACTION_SCHEMA plan \<and> has_extract plan = Inr True"
  by (auto simp: model_attempt_def validate_def Let_def
           split: sum.splits option.splits if_splits)

lemma try_models_some:
  "try_models env user mids = Some (plan, meta) \<Longrightarrow>
     validates ACTION_SCHEMA plan \<and> has_extract plan = Inr True"
proof (induction mids)
  case Nil
  then show ?case by simp
next
  case (Cons mid rest)
  show ?case
  proof (cases "model_attempt env mid user")
    case (Inl e)
    with Cons show ?thesis by simp
  next
    case (Inr r)
    show ?thesis
    proof (cases r)
      case None
      with Inr Cons show ?thesis by simp
    next
      case (Some pl)
      with Inr Cons.prems have "pl = plan" by simp
      with Some Inr model_attempt_some show ?thesis by blast
    qed
  qed
qed

lemma try_gemini_plan_some:
  "try_gemini_plan env goal context = Some (plan, meta) \<Longrightarrow>
     validates ACTION_SCHEMA plan \<and> has_extract plan = Inr True"
  unfolding try_gemini_plan_def Let_def
  by (auto split: if_splits sum.splits dest: try_models_some)

lemma any_extract_True:
  "any_extract steps = Inr True \<Longrightarrow>
     \<exists>kv. JObj kv \<in> set steps \<and> dget kv ''action'' = JStr ''extract''"
  by (induction steps rule: any_extract.induct) (auto split: if_splits)

lemma has_extract_True:
  "has_extract plan = Inr True \<Longrightarrow>
     \<exists>steps kv. plan = JArr steps \<and> JObj kv \<in> set steps \<and> dget kv ''action'' = JStr ''extract''"
  by (cases plan) (auto simp: has_extract_def dest: any_extract_True)

section \<open>The executor: properties\<close>

lemma tenacity_retry_error:
  "tenacity_retry m k pause f p = (Inl e, p') \<Longrightarrow> \<exists>e'. e = RetryError e'"
proof (induction m arbitrary: k p)
  case 0
  then show ?case by (auto split: prod.splits sum.splits)
next
  case (Suc m)
  then show ?case by (auto split: prod.splits sum.splits)
qed

lemma do_wait_for_not_timeout: "fst (do_wait_for d step p) \<noteq> Inl PWTimeout"
proof
  assume a: "fst (do_wait_for d step p) = Inl PWTimeout"
  obtain r p' where rp: "do_wait_for d step p = (r, p')" by (cases "do_wait_for d step p")
  with a have "r = Inl PWTimeout" by simp
  with rp tenacity_retry_error[of 2 1 "d_backoff d" "wait_for_body d step" p PWTimeout p']
  show False by (simp add: do_wait_for_def stop_after_attempt_def)
qed

lemma exec_step_mapped:
  assumes "dget kv ''action'' = JStr a" and "a \<noteq> []" and "a \<noteq> ''extract''"
    and "map_of ACTION_MAP a = Some fn"
  shows "exec_step d result p (JObj kv) = run_mapped d fn (JStr a) kv result p"
  using assms by (simp add: exec_step_def action_map_get_def Let_def)

lemma exec_step_unmapped:
  assumes "dget kv ''action'' = JStr a" and "a \<noteq> ''extract''"
    and "map_of ACTION_MAP a = (None :: ('p driver \<Rightarrow> pydict \<Rightarrow> 'p \<Rightarrow> (exn + unit) \<times> 'p) option)"
  shows "exec_step (d :: 'p driver) result p (JObj kv) = (Inr result, p)"
  using assms by (simp add: exec_step_def action_map_get_def Let_def)

lemma exec_step_extract:
  assumes "dget kv ''action'' = JStr ''extract''"
  shows "exec_step d result p (JObj kv) =
           (case do_extract d kv p of
              (Inl e, p1) \<Rightarrow> (Inl e, p1)
            | (Inr cap, p1) \<Rightarrow> (Inr (dset result ''extracted'' cap), p1))"
  using assms by (simp add: exec_step_def Let_def)

lemma wait_for_step_continues:
  assumes "dget kv ''action'' = JStr ''wait_for''"
  shows "exec_step d result p (JObj kv) = (Inr result, snd (do_wait_for d kv p))"
proof -
  obtain r p' where rp: "do_wait_for d kv p = (r, p')" by (cases "do_wait_for d kv p")
  have nt: "r \<noteq> Inl PWTimeout" using do_wait_for_not_timeout[of d kv p] rp by simp
  have "map_of ACTION_MAP ''wait_for'' = Some do_wait_for"
    by (simp add: ACTION_MAP_def)
  then have "exec_step d result p (JObj kv) = run_mapped d do_wait_for (JStr ''wait_for'') kv result p"
    using assms by (intro exec_step_mapped) simp_all
  also have "\<dots> = (Inr result, p')" using rp nt
    by (cases r) (auto simp: run_mapped_def split: exn.splits)
  finally show ?thesis using rp by simp
qed

lemma select_option_unmapped:
  "map_of ACTION_MAP ''select_option'' = None"
  by (simp add: ACTION_MAP_def)

lemma exec_loop_append:
  "exec_loop d r p (xs @ ys) =
     (case exec_loop d r p xs of
        (Inl e, p1) \<Rightarrow> (Inl e, p1)
      | (Inr r1, p1) \<Rightarrow> exec_loop d r1 p1 ys)"
  by (induction xs arbitrary: r p) (auto split: prod.splits sum.splits)

lemma settle_result: "settle d result p = (Inr r, p') \<Longrightarrow> r = result"
  by (auto simp: settle_def split: prod.splits sum.splits exn.splits)

lemma run_mapped_result: "run_mapped d fn action kv result p = (Inr r, p') \<Longrightarrow> r = result"
  by (auto simp: run_mapped_def dest: settle_result
           split: prod.splits sum.splits exn.splits if_splits)

lemma exec_step_result:
  assumes "exec_step d result p step = (Inr r, p')"
  shows "r = result \<or> (\<exists>cap. r = dset result ''extracted'' cap \<and> is_extract_step step)"
proof (cases step)
  case (JObj kv)
  show ?thesis
  proof (cases "truthy (dget kv ''action'')")
    case False
    with assms JObj show ?thesis by (simp add: exec_step_def)
  next
    case True
    show ?thesis
    proof (cases "dget kv ''action'' = JStr ''extract''")
      case True
      with assms JObj show ?thesis
        by (auto simp: exec_step_extract is_extract_step_def split: prod.splits sum.splits)
    next
      case False
      with True assms JObj have
        "(case action_map_get (dget kv ''action'') of
            Inl e \<Rightarrow> (Inl e, p)
          | Inr None \<Rightarrow> (Inr result, p)
          | Inr (Some fn) \<Rightarrow> run_mapped d fn (dget kv ''action'') kv result p) = (Inr r, p')"
        by (simp add: exec_step_def Let_def)
      then show ?thesis
        by (auto split: sum.splits option.splits dest: run_mapped_result)
    qed
  qed
qed (use assms in \<open>simp_all add: exec_step_def\<close>)

lemma dset_keys: "map fst r = [k] \<Longrightarrow> map fst (dset r k v) = [k]"
  by (cases r) auto

lemma exec_step_keys:
  assumes "exec_step d r0 p step = (Inr r, p')" and "map fst r0 = [''extracted'']"
  shows "map fst r = [''extracted'']"
  using exec_step_result[OF assms(1)] assms(2) dset_keys[of r0 "''extracted''"] by auto

lemma exec_loop_Cons_Inr:
  assumes "exec_loop d r p (s # steps) = (Inr r2, p2)"
  shows "\<exists>r1 p1. exec_step d r p s = (Inr r1, p1) \<and> exec_loop d r1 p1 steps = (Inr r2, p2)"
proof -
  obtain x p1 where x: "exec_step d r p s = (x, p1)" by (cases "exec_step d r p s")
  show ?thesis
  proof (cases x)
    case (Inl e)
    with x assms show ?thesis by simp
  next
    case (Inr r1)
    with x assms show ?thesis by simp
  qed
qed

lemma exec_loop_keys:
  "exec_loop d r0 p steps = (Inr r, p') \<Longrightarrow> map fst r0 = [''extracted'']
     \<Longrightarrow> map fst r = [''extracted'']"
proof (induction steps arbitrary: r0 p)
  case Nil
  then show ?case by simp
next
  case (Cons s steps)
  from exec_loop_Cons_Inr[OF Cons.prems(1)] obtain r1 p1 where
    a: "exec_step d r0 p s = (Inr r1, p1)"
    and b: "exec_loop d r1 p1 steps = (Inr r, p')" by blast
  from exec_step_keys[OF a Cons.prems(2)] have "map fst r1 = [''extracted'']" .
  with b show ?case by (rule Cons.IH)
qed

lemma execute_steps_keys:
  "execute_steps d p steps = (Inr r, p') \<Longrightarrow> map fst r = [''extracted'']"
  unfolding execute_steps_def by (erule exec_loop_keys) simp

lemma single_key_dict:
  "map fst r = [k] \<Longrightarrow> r = [(k, dget r k)]"
  by (cases r) (auto simp: dget_def)

lemma exec_step_non_extract:
  assumes "\<not> is_extract_step step" and "exec_step d result p step = (Inr r, p')"
  shows "r = result"
  using exec_step_result[OF assms(2)] assms(1) by blast

lemma exec_loop_non_extract:
  "list_all (\<lambda>s. \<not> is_extract_step s) steps \<Longrightarrow> exec_loop d result p steps = (Inr r, p')
     \<Longrightarrow> r = result"
proof (induction steps arbitrary: result p)
  case Nil
  then show ?case by simp
next
  case (Cons s steps)
  obtain x p1 where s: "exec_step d result p s = (x, p1)"
    by (cases "exec_step d result p s")
  show ?case
  proof (cases x)
    case (Inl e)
    with s Cons.prems show ?thesis by simp
  next
    case (Inr r1)
    with s Cons.prems exec_step_non_extract[of s d result p r1 p1] have "r1 = result" by simp
    with s Inr Cons.prems have "list_all (\<lambda>s. \<not> is_extract_step s) steps"
      and "exec_loop d result p1 steps = (Inr r, p')" by simp_all
    then show ?thesis by (rule Cons.IH)
  qed
qed

lemma exec_loop_Inr_append:
  assumes "exec_loop d r p (xs @ ys) = (Inr r2, p2)"
  shows "\<exists>r1 p1. exec_loop d r p xs = (Inr r1, p1) \<and> exec_loop d r1 p1 ys = (Inr r2, p2)"
proof -
  obtain x p1 where x: "exec_loop d r p xs = (x, p1)" by (cases "exec_loop d r p xs")
  show ?thesis
  proof (cases x)
    case (Inl e)
    with x assms show ?thesis by (simp add: exec_loop_append)
  next
    case (Inr r1)
    with x assms show ?thesis by (simp add: exec_loop_append)
  qed
qed

lemma click_step_soft_fails:
  assumes act: "dget kv ''action'' = JStr ''click''"
    and a1: "click_body d kv p = (Inl e1, p1)"
    and a2: "click_body d kv (d_backoff d 1 p1) = (Inl e2, p2)"
  shows "exec_step d result p (JObj kv) = settle d result p2"
proof -
  have "do_click d kv p = (Inl (RetryError e2), p2)"
    using a1 a2 by (simp add: do_click_def stop_after_attempt_def numeral_2_eq_2)
  moreover have "map_of ACTION_MAP ''click'' = Some do_click"
    by (simp add: ACTION_MAP_def)
  then have "exec_step d result p (JObj kv) = run_mapped d do_click (JStr ''click'') kv result p"
    using act by (intro exec_step_mapped) simp_all
  ultimately show ?thesis by (simp add: run_mapped_def)
qed

lemma validates_plain: "validates (Schema (Some t) None [] [] None) v = is_type t v"
  by (cases v) simp_all

lemma validates_array_items:
  "validates (Schema (Some ''array'') (Some s) [] [] None) (JArr xs) = list_all (validates s) xs"
  by simp

lemma validates_object:
  "validates (Schema (Some ''object'') None req props None) (JObj kv) =
     (list_all (\<lambda>k. map_of kv k \<noteq> None) req \<and>
      list_all (\<lambda>ks. case map_of kv (fst ks) of None \<Rightarrow> True
                          | Some v \<Rightarrow> validates (snd ks) v) props)"
  by simp

lemma validates_enum_str:
  "validates (Schema (Some ''string'') None [] [] (Some es)) (JStr s) = (JStr s \<in> set es)"
  by simp

section \<open>The context builder: properties\<close>

lemma remote_context_not_configured:
  "mcp_import env = Inr () \<Longrightarrow>
   getenv_MCP_PLAYWRIGHT_CMD env = None \<or> getenv_MCP_PLAYWRIGHT_CMD env = Some [] \<Longrightarrow>
   remote_context env url = Inr None"
  by (auto simp: remote_context_def)

lemma remote_context_no_elements:
  "mcp_run env url = Inr (JObj kv) \<Longrightarrow> \<not> truthy (dget kv ''elements'') \<Longrightarrow>
   remote_context env url \<noteq> Inr (Some ctx)"
  by (auto simp: remote_context_def split: sum.splits option.splits)

lemma remote_context_raises:
  "mcp_run env url = Inl e \<Longrightarrow> remote_context env url \<noteq> Inr (Some ctx)"
  by (auto simp: remote_context_def split: sum.splits option.splits)

lemma local_context_tagged:
  "local_context d url p = (Inr ctx, p') \<Longrightarrow>
     \<exists>kv. ctx = JObj kv \<and> dget kv ''__source'' = JStr ''local''"
  by (auto simp: local_context_def Let_def dget_def split: prod.splits sum.splits)

lemma local_context_returns_when_counts_answer:
  assumes "\<And>sel q. \<exists>n q'. d_count d sel q = (Inr n, q')"
  shows "\<exists>ctx p'. local_context d url p = (Inr ctx, p')"
proof -
  obtain ax p1 where a: "(case d_ax_snapshot d p of
                        (Inl e, p1) \<Rightarrow> (None, p1)
                      | (Inr a, p1) \<Rightarrow> (a, p1)) = (ax, p1)"
    by (cases "(case d_ax_snapshot d p of
                        (Inl e, p1) \<Rightarrow> (None, p1)
                      | (Inr a, p1) \<Rightarrow> (a, p1))")
  obtain ts p2 where t: "(case d_eval_testids d p1 of
                             (Inl e, p2) \<Rightarrow> (JArr [], p2)
                           | (Inr t, p2) \<Rightarrow> (if truthy t then t else JArr [], p2)) = (ts, p2)"
    by (cases "(case d_eval_testids d p1 of
                             (Inl e, p2) \<Rightarrow> (JArr [], p2)
                           | (Inr t, p2) \<Rightarrow> (if truthy t then t else JArr [], p2))")
  from assms obtain n1 p3 where c1: "d_count d SEARCH_BOX_SELECTOR p2 = (Inr n1, p3)" by blast
  from assms obtain n2 p4 where c2: "d_count d SUBMIT_BTN_SELECTOR p3 = (Inr n2, p4)" by blast
  have "local_context d url p =
          (case (ts, p2) of (testids, p2) \<Rightarrow>
             case d_count d SEARCH_BOX_SELECTOR p2 of
               (Inl e, p3) \<Rightarrow> (Inl e, p3)
             | (Inr n1, p3) \<Rightarrow>
                 (case d_count d SUBMIT_BTN_SELECTOR p3 of
                    (Inl e, p4) \<Rightarrow> (Inl e, p4)
                  | (Inr n2, p4) \<Rightarrow>
                      (Inr (JObj [(''__source'', JStr ''local''),
                              (''url'', JStr url),
                              (''elements'', JArr (case ax of None \<Rightarrow> [] | Some node \<Rightarrow> walk node)),
                              (''testids'', testids),
                              (''hints'', JObj [(''has_search_box'', JBool (n1 > 0)),
                                                (''has_submit_btn'', JBool (n2 > 0))])]),
                       p4)))"
    unfolding local_context_def Let_def a prod.case t[symmetric] ..
  then show ?thesis using c1 c2 by simp
qed

section \<open>The goal-processing flow: properties\<close>

text \<open>
  What the \<open>try\<close>, \<open>except\<close> and \<open>finally\<close> clauses of \<open>run_goal\<close> do once the page
  exists: an exception of the inner steps becomes the empty list, and the browser is
  closed on the state the inner steps left.
\<close>

lemma run_goal_guarded_flow:
  assumes "b_start d p = (Inr (), p0)"
    and "b_launch d p0 = (Inr (), p1)"
    and "b_new_page d p1 = (Inr (), p2)"
    and "run_body d menv lenv renv debug reread goal p2 = (body, p3)"
    and "b_close d p3 = (Inr (), p4)"
    and "b_stop d p4 = (Inr (), p5)"
  shows "run_goal d menv lenv renv debug reread goal p =
           (Inr (case body of Inl e \<Rightarrow> [] | Inr rs \<Rightarrow> rs), p5)"
  using assms by (simp add: run_goal_def leave_with_def)

lemma run_goal_on_concrete_pages:
  "run_goal stalled_page no_mcp offline_env plain_env False True
     ''I want to know about the crimes in LA'' 0 = (Inr [], 1) \<and>
   run_goal results_page no_mcp offline_env plain_env False True
     ''I want to know about the crimes in LA'' 0 =
     (Inr [JObj [(''title'', JStr ''Crime Data from 2020 to Present''),
                 (''url'', JStr ''https://data.lacity.org/d/2nrs-mtv8'')],
           JObj [(''title'', JStr ''Arrest Data from 2020 to Present''),
                 (''url'', JStr ''https://data.lacity.org/d/amvf-fr72'')]], 18)"
proof -
  let ?goal = "''I want to know about the crimes in LA''"
  have s: "b_start stalled_page 0 = (Inr (), 0)" "b_launch stalled_page 0 = (Inr (), 0)"
    "b_new_page stalled_page 0 = (Inr (), 0)"
    "b_close stalled_page 1 = (Inr (), 1)" "b_stop stalled_page 1 = (Inr (), 1)"
    by (simp_all add: stalled_page_def)
  have sb: "run_body stalled_page no_mcp offline_env plain_env False True ?goal 0 =
      (Inl PWTimeout, 1)"
    by code_simp
  have r: "b_start results_page 0 = (Inr (), 0)" "b_launch results_page 0 = (Inr (), 0)"
    "b_new_page results_page 0 = (Inr (), 0)"
    "b_close results_page 18 = (Inr (), 18)" "b_stop results_page 18 = (Inr (), 18)"
    by (simp_all add: results_page_def)
  have rb: "run_body results_page no_mcp offline_env plain_env False True ?goal 0 =
     (Inr [JObj [(''title'', JStr ''Crime Data from 2020 to Present''),
                 (''url'', JStr ''https://data.lacity.org/d/2nrs-mtv8'')],
           JObj [(''title'', JStr ''Arrest Data from 2020 to Present''),
                 (''url'', JStr ''https://data.lacity.org/d/amvf-fr72'')]], 18)"
    by code_simp
  from run_goal_guarded_flow[OF s(1) s(2) s(3) sb s(4) s(5)]
       run_goal_guarded_flow[OF r(1) r(2) r(3) rb r(4) r(5)]
  show ?thesis by simp
qed

section \<open>Claims\<close>

text \<open>
  C1. For every goal string, every context and every behaviour of the model backend,
  \<open>plan_actions_via_llm_mcp\<close> returns a pair \<open>(plan, meta)\<close> and raises nothing; the
  returned plan validates against \<open>ACTION_SCHEMA\<close>, and it is a list containing a step
  whose \<open>action\<close> is \<open>"extract"\<close>.
\<close>

theorem plan_actions_valid_with_extract:
  "\<exists>plan meta steps kv.
     plan_actions_via_llm_mcp env goal context = Inr (plan, meta) \<and>
     validates ACTION_SCHEMA plan \<and>
     plan = JArr steps \<and> JObj kv \<in> set steps \<and> dget kv ''action'' = JStr ''extract''"
proof -
  have "\<exists>plan meta. plan_actions_via_llm_mcp env goal context = Inr (plan, meta) \<and>
          validates ACTION_SCHEMA plan \<and> has_extract plan = Inr True"
  proof (cases "try_gemini_plan env goal context")
    case None
    then show ?thesis
      by (simp add: plan_actions_via_llm_mcp_def validate_def fallback_valid fallback_has_extract)
  next
    case (Some pm)
    obtain plan meta where pm: "pm = (plan, meta)" by (cases pm)
    with Some try_gemini_plan_some
    have "validates ACTION_SCHEMA plan \<and> has_extract plan = Inr True" by blast
    with Some pm show ?thesis
      by (simp add: plan_actions_via_llm_mcp_def validate_def)
  qed
  then obtain plan meta where
    r: "plan_actions_via_llm_mcp env goal context = Inr (plan, meta)"
    and v: "validates ACTION_SCHEMA plan" and h: "has_extract plan = Inr True"
    by blast
  from has_extract_True[OF h] obtain steps kv where
    "plan = JArr steps" "JObj kv \<in> set steps" "dget kv ''action'' = JStr ''extract''"
    by blast
  with r v show ?thesis by blast
qed

theorem plan_actions_valid_with_extract_witness:
  "plan_actions_via_llm_mcp offline_env ''crimes LA'' JNull =
     Inr (fallback_plan ''crimes LA'' JNull, fallback_meta) \<and>
   (\<exists>plan meta steps kv.
     plan_actions_via_llm_mcp offline_env ''crimes LA'' JNull = Inr (plan, meta) \<and>
     validates ACTION_SCHEMA plan \<and>
     plan = JArr steps \<and> JObj kv \<in> set steps \<and> dget kv ''action'' = JStr ''extract'')"
proof -
  have "try_gemini_plan offline_env ''crimes LA'' JNull = None"
    by (simp add: try_gemini_plan_def offline_env_def)
  then have "plan_actions_via_llm_mcp offline_env ''crimes LA'' JNull =
     Inr (fallback_plan ''crimes LA'' JNull, fallback_meta)"
    by (simp add: plan_actions_via_llm_mcp_def validate_def fallback_valid)
  with plan_actions_valid_with_extract[of offline_env "''crimes LA''" JNull]
  show ?thesis by blast
qed

text \<open>
  C5, as stated, fails: a tool name that starts with a candidate does not win over a
  tool name that merely contains a candidate of higher priority. With the tools
  \<open>my_playwright_navigate\<close> and \<open>navigate_to\<close> and the candidate list of \<open>navigate\<close>,
  the second tool starts with the candidate \<open>navigate\<close>, yet the result is the first
  tool, which starts with none of the candidates.
\<close>

theorem match_tool_prefers_priority_counterexample:
  "match_tool [''my_playwright_navigate'', ''navigate_to'']
     [''playwright_navigate'', ''playwright.navigate'', ''page.navigate'', ''navigate'']
     = Some ''my_playwright_navigate'' \<and>
   prefix (py_lower ''navigate'') (py_lower ''navigate_to'') \<and>
   \<not> prefix (py_lower ''playwright_navigate'') (py_lower ''my_playwright_navigate'') \<and>
   \<not> prefix (py_lower ''playwright.navigate'') (py_lower ''my_playwright_navigate'') \<and>
   \<not> prefix (py_lower ''page.navigate'') (py_lower ''my_playwright_navigate'') \<and>
   \<not> prefix (py_lower ''navigate'') (py_lower ''my_playwright_navigate'')"
  by code_simp

text \<open>
  C5, amended. \<open>_match_tool\<close> returns \<open>None\<close> exactly when no tool name starts with or
  contains any candidate (case-insensitively). Otherwise the candidates are tried in
  priority order and the first candidate \<open>c\<close> that occurs in some tool name decides:
  the result is the first tool name that starts with \<open>c\<close> if there is one, and the
  first tool name that contains \<open>c\<close> if none starts with it.
\<close>

theorem match_tool_by_candidate_priority:
  "(match_tool names cands = None \<longleftrightarrow>
      (\<forall>c\<in>set cands. \<forall>n\<in>set names.
          \<not> prefix (py_lower c) (py_lower n) \<and> \<not> py_in (py_lower c) (py_lower n))) \<and>
   ((\<forall>c'\<in>set pre. \<forall>n\<in>set names. \<not> py_in (py_lower c') (py_lower n)) \<and>
    (\<exists>n\<in>set names. py_in (py_lower c) (py_lower n)) \<longrightarrow>
      match_tool names (pre @ c # post) =
        (if \<exists>n\<in>set names. prefix (py_lower c) (py_lower n)
         then first_match (prefix (py_lower c)) names
         else first_match (py_in (py_lower c)) names))"
proof -
  have "match_tool names cands = None \<longleftrightarrow>
      (\<forall>c\<in>set cands. \<forall>n\<in>set names.
          \<not> prefix (py_lower c) (py_lower n) \<and> \<not> py_in (py_lower c) (py_lower n))"
    unfolding match_tool_None_iff using prefix_py_in by blast
  moreover have "(\<forall>c'\<in>set pre. \<forall>n\<in>set names. \<not> py_in (py_lower c') (py_lower n)) \<and>
    (\<exists>n\<in>set names. py_in (py_lower c) (py_lower n)) \<longrightarrow>
      match_tool names (pre @ c # post) =
        (if \<exists>n\<in>set names. prefix (py_lower c) (py_lower n)
         then first_match (prefix (py_lower c)) names
         else first_match (py_in (py_lower c)) names)"
    using match_tool_skip[of pre names "c # post"] match_tool_decide[of names c post] by presburger
  ultimately show ?thesis by blast
qed

theorem match_tool_by_candidate_priority_witness:
  "match_tool [''my_playwright_navigate'', ''navigate_to'']
     ([''page.navigate''] @ ''navigate'' # [''goto'']) = Some ''navigate_to'' \<and>
   match_tool [''my_playwright_navigate'', ''navigate_to''] [''snapshot'', ''page.snapshot''] = None"
proof -
  let ?names = "[''my_playwright_navigate'', ''navigate_to'']"
  have a: "\<forall>c'\<in>set [''page.navigate'']. \<forall>n\<in>set ?names. \<not> py_in (py_lower c') (py_lower n)"
    by code_simp
  have b: "\<exists>n\<in>set ?names. py_in (py_lower ''navigate'') (py_lower n)"
    by code_simp
  have c: "\<exists>n\<in>set ?names. prefix (py_lower ''navigate'') (py_lower n)"
    by code_simp
  have d: "first_match (prefix (py_lower ''navigate'')) ?names = Some ''navigate_to''"
    by code_simp
  have e: "\<forall>c\<in>set [''snapshot'', ''page.snapshot'']. \<forall>n\<in>set ?names.
             \<not> prefix (py_lower c) (py_lower n) \<and> \<not> py_in (py_lower c) (py_lower n)"
    by code_simp
  from a b c d
    match_tool_by_candidate_priority[of ?names "[]" "[''page.navigate'']" "''navigate''" "[''goto'']"]
  have "match_tool ?names ([''page.navigate''] @ ''navigate'' # [''goto'']) = Some ''navigate_to''"
    by presburger
  moreover from e
    match_tool_by_candidate_priority[of ?names "[''snapshot'', ''page.snapshot'']" "[]" "''x''" "[]"]
  have "match_tool ?names [''snapshot'', ''page.snapshot''] = None"
    by blast
  ultimately show ?thesis by blast
qed

text \<open>
  C2 does not hold of the code. On a page where the awaited element never becomes
  visible, each of the three attempts of the \<open>wait_for\<close> step times out; the retry
  decorator then raises \<open>RetryError\<close>, which is not a Playwright timeout, so
  \<open>execute_steps\<close> drops it, goes on to the next step and returns normally. The page
  state 5 counts three waits and the two reads of the extract step.
\<close>

theorem wait_for_timeout_is_swallowed:
  "wait_for_body stalled_page wait_results 0 = (Inl PWTimeout, 1) \<and>
   wait_for_body stalled_page wait_results 1 = (Inl PWTimeout, 2) \<and>
   wait_for_body stalled_page wait_results 2 = (Inl PWTimeout, 3) \<and>
   do_wait_for stalled_page wait_results 0 = (Inl (RetryError PWTimeout), 3) \<and>
   execute_steps stalled_page 0 [JObj wait_results, JObj extract_first] =
     (Inr [(''extracted'',
            JObj [(''text'', JStr ''Crime Data from 2020 to Present''),
                  (''href'', JStr ''https://data.lacity.org/d/2nrs-mtv8'')])], 5)"
  by code_simp

text \<open>
  C3, as stated, fails: the steps between the click and the trailing extract can end
  the run. Here the click fails twice with an error that is not a timeout and is
  dropped, but the \<open>goto\<close> step that follows times out, and that timeout leaves
  \<open>execute_steps\<close> before the extract step is reached.
\<close>

theorem click_then_extract_counterexample:
  "click_body stalled_page click_submit 0 = (Inl (Error ''element is detached''), 1) \<and>
   click_body stalled_page click_submit (d_backoff stalled_page 1 1) =
     (Inl (Error ''element is detached''), 2) \<and>
   execute_steps stalled_page 0 [JObj click_submit, JObj goto_browse, JObj extract_first] =
     (Inl PWTimeout, 4)"
  by code_simp

text \<open>
  C3, amended. Take a plan \<open>[click step] @ mid @ [extract step]\<close> in which the click
  fails on both of its attempts with a non-timeout error. If the settle wait after the
  click returns or times out, the steps of \<open>mid\<close> run to their end without an exception
  leaving the executor, and the reads of the trailing extract step succeed with capture
  \<open>cap\<close>, then \<open>execute_steps\<close> returns normally and the \<open>extracted\<close> field of its
  result is \<open>cap\<close>.
\<close>

theorem click_soft_fail_reaches_extract:
  assumes "dget kv ''action'' = JStr ''click''"
    and "click_body d kv p = (Inl e1, p1)" and "e1 \<noteq> PWTimeout"
    and "click_body d kv (d_backoff d 1 p1) = (Inl e2, p2)" and "e2 \<noteq> PWTimeout"
    and "d_wait_for_load_state d 15000 p2 = (w, p3)" and "w = Inr () \<or> w = Inl PWTimeout"
    and "exec_loop d [(''extracted'', JNull)] p3 mid = (Inr res, p4)"
    and "dget ekv ''action'' = JStr ''extract''"
    and "do_extract d ekv p4 = (Inr cap, p5)"
  shows "execute_steps d p (JObj kv # mid @ [JObj ekv]) = (Inr [(''extracted'', cap)], p5)"
proof -
  have "exec_step d [(''extracted'', JNull)] p (JObj kv) = settle d [(''extracted'', JNull)] p2"
    using assms(1,2,4) by (rule click_step_soft_fails)
  also have "\<dots> = (Inr [(''extracted'', JNull)], p3)"
    using assms(6,7) by (auto simp: settle_def)
  finally have first: "exec_step d [(''extracted'', JNull)] p (JObj kv) =
      (Inr [(''extracted'', JNull)], p3)" .
  have "map fst res = [''extracted'']"
    using assms(8) by (rule exec_loop_keys) simp
  then have res: "dset res ''extracted'' cap = [(''extracted'', cap)]"
    by (cases res) auto
  have last: "exec_loop d res p4 [JObj ekv] = (Inr [(''extracted'', cap)], p5)"
    using assms(9,10) res by (simp add: exec_step_extract)
  show ?thesis
    unfolding execute_steps_def
    using first assms(8) last by (simp add: exec_loop_append)
qed

theorem click_soft_fail_reaches_extract_witness:
  "execute_steps stalled_page 0 [JObj click_submit, JObj press_enter, JObj extract_first] =
     (Inr [(''extracted'',
            JObj [(''text'', JStr ''Crime Data from 2020 to Present''),
                  (''href'', JStr ''https://data.lacity.org/d/2nrs-mtv8'')])], 6)"
proof -
  have 1: "dget click_submit ''action'' = JStr ''click''" by code_simp
  have 2: "click_body stalled_page click_submit 0 = (Inl (Error ''element is detached''), 1)"
    by code_simp
  have 3: "Error ''element is detached'' \<noteq> PWTimeout" by simp
  have 4: "click_body stalled_page click_submit (d_backoff stalled_page 1 1) =
      (Inl (Error ''element is detached''), 2)" by code_simp
  have 5: "d_wait_for_load_state stalled_page 15000 2 = (Inr (), 3)" by code_simp
  have 6: "Inr () = (Inr () :: exn + unit) \<or> Inr () = (Inl PWTimeout :: exn + unit)" by simp
  have 7: "exec_loop stalled_page [(''extracted'', JNull)] 3 [JObj press_enter] =
      (Inr [(''extracted'', JNull)], 4)" by code_simp
  have 8: "dget extract_first ''action'' = JStr ''extract''" by code_simp
  have 9: "do_extract stalled_page extract_first 4 =
      (Inr (JObj [(''text'', JStr ''Crime Data from 2020 to Present''),
                  (''href'', JStr ''https://data.lacity.org/d/2nrs-mtv8'')]), 6)" by code_simp
  from click_soft_fail_reaches_extract[OF 1 2 3 4 3 5 6 7 8 9]
  show ?thesis by simp
qed

text \<open>
  C9. Whenever \<open>execute_steps\<close> returns, the returned dictionary has the key
  \<open>extracted\<close> (and only that key). Its value is \<open>None\<close> when the plan has no extract
  step; and when \<open>JObj kv\<close> is the last extract step of the plan, its value is what
  \<open>_do_extract\<close> captured for that step, on the page as the steps before it left it.
\<close>

theorem extracted_is_last_capture:
  "execute_steps d p steps = (Inr r, p') \<longrightarrow>
     map fst r = [''extracted''] \<and> map_of r ''extracted'' \<noteq> None \<and>
     (list_all (\<lambda>s. \<not> is_extract_step s) steps \<longrightarrow> dget r ''extracted'' = JNull) \<and>
     (\<forall>pre kv post.
        steps = pre @ JObj kv # post \<and> dget kv ''action'' = JStr ''extract'' \<and>
        list_all (\<lambda>s. \<not> is_extract_step s) post \<longrightarrow>
        (\<exists>r1 p1 p2. execute_steps d p pre = (Inr r1, p1) \<and>
                    do_extract d kv p1 = (Inr (dget r ''extracted''), p2)))"
proof
  assume ret: "execute_steps d p steps = (Inr r, p')"
  have keys: "map fst r = [''extracted'']"
    using ret by (rule execute_steps_keys)
  then have present: "map_of r ''extracted'' \<noteq> None"
    by (cases r) auto
  have none: "list_all (\<lambda>s. \<not> is_extract_step s) steps \<longrightarrow> dget r ''extracted'' = JNull"
  proof
    assume "list_all (\<lambda>s. \<not> is_extract_step s) steps"
    then have "r = [(''extracted'', JNull)]"
      using ret unfolding execute_steps_def by (rule exec_loop_non_extract)
    then show "dget r ''extracted'' = JNull" by (simp add: dget_def)
  qed
  have last: "\<exists>r1 p1 p2. execute_steps d p pre = (Inr r1, p1) \<and>
                    do_extract d kv p1 = (Inr (dget r ''extracted''), p2)"
    if dec: "steps = pre @ JObj kv # post" and ex: "dget kv ''action'' = JStr ''extract''"
      and post: "list_all (\<lambda>s. \<not> is_extract_step s) post" for pre kv post
  proof -
    from ret dec have "exec_loop d [(''extracted'', JNull)] p (pre @ JObj kv # post) = (Inr r, p')"
      by (simp add: execute_steps_def)
    from exec_loop_Inr_append[OF this] obtain r1 p1 where
      a: "exec_loop d [(''extracted'', JNull)] p pre = (Inr r1, p1)"
      and b: "exec_loop d r1 p1 (JObj kv # post) = (Inr r, p')" by blast
    from exec_loop_Cons_Inr[OF b] obtain r2 p2 where
      c: "exec_step d r1 p1 (JObj kv) = (Inr r2, p2)"
      and e: "exec_loop d r2 p2 post = (Inr r, p')" by blast
    from post e have rr: "r = r2" by (rule exec_loop_non_extract)
    have k1: "map fst r1 = [''extracted'']"
      using a by (rule exec_loop_keys) simp
    obtain x q where dx: "do_extract d kv p1 = (x, q)" by (cases "do_extract d kv p1")
    show ?thesis
    proof (cases x)
      case (Inl err)
      with c dx ex show ?thesis by (simp add: exec_step_extract)
    next
      case (Inr cap)
      with c dx ex have "r2 = dset r1 ''extracted'' cap" and "q = p2"
        by (simp_all add: exec_step_extract)
      moreover from k1 have "dget (dset r1 ''extracted'' cap) ''extracted'' = cap"
        by (cases r1) (auto simp: dget_def)
      ultimately have "do_extract d kv p1 = (Inr (dget r ''extracted''), p2)"
        using dx Inr rr by simp
      with a show ?thesis unfolding execute_steps_def by blast
    qed
  qed
  from keys present none last
  show "map fst r = [''extracted''] \<and> map_of r ''extracted'' \<noteq> None \<and>
     (list_all (\<lambda>s. \<not> is_extract_step s) steps \<longrightarrow> dget r ''extracted'' = JNull) \<and>
     (\<forall>pre kv post.
        steps = pre @ JObj kv # post \<and> dget kv ''action'' = JStr ''extract'' \<and>
        list_all (\<lambda>s. \<not> is_extract_step s) post \<longrightarrow>
        (\<exists>r1 p1 p2. execute_steps d p pre = (Inr r1, p1) \<and>
                    do_extract d kv p1 = (Inr (dget r ''extracted''), p2)))"
    by blast
qed

theorem extracted_is_last_capture_witness:
  "execute_steps stalled_page 0 ([JObj extract_first, JObj press_enter] @ JObj extract_first # [JObj select_sort]) =
     (Inr [(''extracted'',
            JObj [(''text'', JStr ''Crime Data from 2020 to Present''),
                  (''href'', JStr ''https://data.lacity.org/d/2nrs-mtv8'')])], 5) \<and>
   (\<exists>r1 p2. execute_steps stalled_page 0 [JObj extract_first, JObj press_enter] = (Inr r1, 3) \<and>
      do_extract stalled_page extract_first 3 =
        (Inr (JObj [(''text'', JStr ''Crime Data from 2020 to Present''),
                    (''href'', JStr ''https://data.lacity.org/d/2nrs-mtv8'')]), p2)) \<and>
   execute_steps stalled_page 0 [JObj press_enter, JObj select_sort] = (Inr [(''extracted'', JNull)], 1)"
proof -
  let ?cap = "JObj [(''text'', JStr ''Crime Data from 2020 to Present''),
                    (''href'', JStr ''https://data.lacity.org/d/2nrs-mtv8'')]"
  let ?steps = "[JObj extract_first, JObj press_enter] @ JObj extract_first # [JObj select_sort]"
  have run: "execute_steps stalled_page 0 ?steps = (Inr [(''extracted'', ?cap)], 5)"
    by code_simp
  have ex: "dget extract_first ''action'' = JStr ''extract''" by code_simp
  have post: "list_all (\<lambda>s. \<not> is_extract_step s) [JObj select_sort]" by code_simp
  have pre: "execute_steps stalled_page 0 [JObj extract_first, JObj press_enter] =
      (Inr [(''extracted'', ?cap)], 3)" by code_simp
  have g: "dget [(''extracted'', ?cap)] ''extracted'' = ?cap" by (simp add: dget_def)
  from extracted_is_last_capture[of stalled_page 0 ?steps "[(''extracted'', ?cap)]" 5] run
  have "\<forall>pre kv post.
        ?steps = pre @ JObj kv # post \<and> dget kv ''action'' = JStr ''extract'' \<and>
        list_all (\<lambda>s. \<not> is_extract_step s) post \<longrightarrow>
        (\<exists>r1 p1 p2. execute_steps stalled_page 0 pre = (Inr r1, p1) \<and>
                    do_extract stalled_page kv p1 = (Inr (dget [(''extracted'', ?cap)] ''extracted''), p2))"
    by blast
  with ex post have "\<exists>r1 p1 p2.
      execute_steps stalled_page 0 [JObj extract_first, JObj press_enter] = (Inr r1, p1) \<and>
      do_extract stalled_page extract_first p1 = (Inr (dget [(''extracted'', ?cap)] ''extracted''), p2)"
    by blast
  with pre g have a: "\<exists>r1 p2.
      execute_steps stalled_page 0 [JObj extract_first, JObj press_enter] = (Inr r1, 3) \<and>
      do_extract stalled_page extract_first 3 = (Inr ?cap, p2)"
    by auto
  have none: "execute_steps stalled_page 0 [JObj press_enter, JObj select_sort] =
      (Inr [(''extracted'', JNull)], 1)" by code_simp
  from run a none show ?thesis by blast
qed


text \<open>
  C10. A step whose \<open>action\<close> is \<open>"select_option"\<close> is accepted by the schema: the
  kind is in the enumeration, so such a step validates exactly when its optional
  fields have the declared types. \<open>ACTION_MAP\<close> has no entry for it, and the loop body
  of \<open>execute_steps\<close> leaves the page state and the result dictionary as they were and
  goes on with the rest of the plan.
\<close>

theorem select_option_valid_but_skipped:
  assumes "dget kv ''action'' = JStr ''select_option''"
  shows "validates ACTION_SCHEMA (JArr [JObj [(''action'', JStr ''select_option'')]]) \<and>
         validates ACTION_SCHEMA (JArr [JObj kv]) =
           (list_all (\<lambda>k. case map_of kv k of None \<Rightarrow> True | Some v \<Rightarrow> is_type ''string'' v)
              [''url'', ''selector'', ''role'', ''name'', ''value'', ''assert''] \<and>
            (case map_of kv ''timeout_ms'' of None \<Rightarrow> True | Some v \<Rightarrow> is_type ''number'' v)) \<and>
         map_of (ACTION_MAP :: (string \<times> ('p driver \<Rightarrow> pydict \<Rightarrow> 'p \<Rightarrow> (exn + unit) \<times> 'p)) list)
           ''select_option'' = None \<and>
         exec_step (d :: 'p driver) result p (JObj kv) = (Inr result, p) \<and>
         exec_loop d result p (JObj kv # rest) = exec_loop d result p rest"
proof -
  have m: "map_of kv ''action'' = Some (JStr ''select_option'')"
    using assms by (auto simp: dget_def split: option.splits)
  have v0: "validates ACTION_SCHEMA (JArr [JObj [(''action'', JStr ''select_option'')]])"
    by (simp add: ACTION_SCHEMA_def str_schema_def)
  have v1: "validates ACTION_SCHEMA (JArr [JObj kv]) =
           (list_all (\<lambda>k. case map_of kv k of None \<Rightarrow> True | Some v \<Rightarrow> is_type ''string'' v)
              [''url'', ''selector'', ''role'', ''name'', ''value'', ''assert''] \<and>
            (case map_of kv ''timeout_ms'' of None \<Rightarrow> True | Some v \<Rightarrow> is_type ''number'' v))"
    using m
    by (simp add: ACTION_SCHEMA_def str_schema_def validates_array_items validates_object
          validates_enum_str validates_plain
        del: validates.simps cong: option.case_cong)
  have um: "map_of (ACTION_MAP :: (string \<times> ('p driver \<Rightarrow> pydict \<Rightarrow> 'p \<Rightarrow> (exn + unit) \<times> 'p)) list)
           ''select_option'' = None"
    by (rule select_option_unmapped)
  have st: "exec_step d result p (JObj kv) = (Inr result, p)"
    using assms _ um by (rule exec_step_unmapped) simp
  then have "exec_loop d result p (JObj kv # rest) = exec_loop d result p rest"
    by simp
  with v0 v1 um st show ?thesis by blast
qed

theorem select_option_valid_but_skipped_witness:
  "validates ACTION_SCHEMA (JArr [JObj select_sort]) \<and>
   exec_step stalled_page [(''extracted'', JNull)] 7 (JObj select_sort) = (Inr [(''extracted'', JNull)], 7) \<and>
   execute_steps stalled_page 0 [JObj select_sort, JObj press_enter] =
     execute_steps stalled_page 0 [JObj press_enter]"
proof -
  have a: "dget select_sort ''action'' = JStr ''select_option''" by code_simp
  have t: "list_all (\<lambda>k. case map_of select_sort k of None \<Rightarrow> True | Some v \<Rightarrow> is_type ''string'' v)
              [''url'', ''selector'', ''role'', ''name'', ''value'', ''assert''] \<and>
            (case map_of select_sort ''timeout_ms'' of None \<Rightarrow> True | Some v \<Rightarrow> is_type ''number'' v)"
    by code_simp
  from select_option_valid_but_skipped[OF a, of stalled_page "[(''extracted'', JNull)]" 7 "[]"] t
  have 1: "validates ACTION_SCHEMA (JArr [JObj select_sort]) \<and>
   exec_step stalled_page [(''extracted'', JNull)] 7 (JObj select_sort) = (Inr [(''extracted'', JNull)], 7)"
    by blast
  from select_option_valid_but_skipped[OF a, of stalled_page "[(''extracted'', JNull)]" 0 "[JObj press_enter]"]
  have "execute_steps stalled_page 0 [JObj select_sort, JObj press_enter] =
     execute_steps stalled_page 0 [JObj press_enter]"
    unfolding execute_steps_def by blast
  with 1 show ?thesis by blast
qed

text \<open>
  C7. On the input \<open>I want to know about the crimes in LA\<close> the keyword extractor
  returns \<open>crimes LA\<close>: the joined token list is \<open>crimes\<close>, \<open>LA\<close>, which contains both
  tokens, has at most 5 tokens, and has no token whose lower-cased form is a stopword.
\<close>

theorem crimes_in_LA_keywords:
  "search_tokens ''I want to know about the crimes in LA'' = [''crimes'', ''LA''] \<and>
   extract_search_text ''I want to know about the crimes in LA'' = ''crimes LA'' \<and>
   extract_search_text ''I want to know about the crimes in LA'' =
     join_space (search_tokens ''I want to know about the crimes in LA'') \<and>
   ''crimes'' \<in> set (search_tokens ''I want to know about the crimes in LA'') \<and>
   ''LA'' \<in> set (search_tokens ''I want to know about the crimes in LA'') \<and>
   length (search_tokens ''I want to know about the crimes in LA'') \<le> 5 \<and>
   list_all (\<lambda>t. py_lower t \<notin> set STOP) (search_tokens ''I want to know about the crimes in LA'')"
proof -
  have t: "search_tokens ''I want to know about the crimes in LA'' = [''crimes'', ''LA'']"
    by code_simp
  have s: "list_all (\<lambda>t. py_lower t \<notin> set STOP) [''crimes'', ''LA'']"
    by code_simp
  have e: "extract_search_text ''I want to know about the crimes in LA'' = ''crimes LA''"
    unfolding extract_search_text_def t by code_simp
  from t s e show ?thesis by simp
qed

text \<open>
  C8. On the input \<open>Find datasets on "General Services"\<close> the quoted phrase is found
  as one match of the quoted-phrase pattern and is kept as a single element
  \<open>General Services\<close> of the token list, its two words adjacent and in order; the
  returned string is the join of that list and so contains the phrase.
\<close>

theorem quoted_phrase_kept_intact:
  \<open>re_findall False QUOTED_RX ''Find datasets on "General Services"'' = [''"General Services"''] \<and>
   search_tokens ''Find datasets on "General Services"'' =
     [''General'', ''Services'', ''General Services''] \<and>
   ''General Services'' \<in> set (search_tokens ''Find datasets on "General Services"'') \<and>
   extract_search_text ''Find datasets on "General Services"'' =
     join_space (search_tokens ''Find datasets on "General Services"'') \<and>
   extract_search_text ''Find datasets on "General Services"'' = ''General Services General Services'' \<and>
   py_in ''General Services'' (extract_search_text ''Find datasets on "General Services"'')\<close>
proof -
  have f: \<open>re_findall False QUOTED_RX ''Find datasets on "General Services"'' = [''"General Services"'']\<close>
    by code_simp
  have t: \<open>search_tokens ''Find datasets on "General Services"'' =
     [''General'', ''Services'', ''General Services'']\<close>
    by code_simp
  have e: \<open>extract_search_text ''Find datasets on "General Services"'' = ''General Services General Services''\<close>
    unfolding extract_search_text_def t by code_simp
  have p: "py_in ''General Services'' ''General Services General Services''"
    by code_simp
  from f t e p show ?thesis by simp
qed

text \<open>
  C4 does not hold of the code. With no remote endpoint configured the builder takes
  the local path; there the accessibility snapshot and the test-id probe are guarded,
  but the two \<open>count()\<close> probes for the hints are not, and on a page whose target is
  closed the first of them raises out of \<open>build_page_context\<close>. The page state 3 counts
  the snapshot, the test-id probe and the first \<open>count()\<close>.
\<close>

theorem build_page_context_raises_on_closed_page:
  "remote_context no_mcp (d_url dead_browser 0) = Inr None \<and>
   build_page_context no_mcp dead_browser 0 = (Inl (Error ''Target closed''), 3)"
  by code_simp

text \<open>
  C6 does not hold of the code. \<open>run_goal\<close> is documented to return \<open>[]\<close> on error,
  and its \<open>try\<close> block turns every exception of the inner steps into an empty list,
  but starting Playwright, launching the browser and opening the page happen before the
  \<open>try\<close>. When the browser cannot be launched, the exception of \<open>p.chromium.launch\<close>
  leaves \<open>run_goal\<close> instead of an empty list being returned. The page state 0 shows
  that no page call was made.
\<close>

theorem run_goal_raises_when_launch_fails:
  "b_start dead_browser 0 = (Inr (), 0) \<and>
   b_launch dead_browser 0 = (Inl (Error ''Executable does not exist''), 0) \<and>
   run_goal dead_browser no_mcp offline_env plain_env False True ''crimes in LA'' 0 =
     (Inl (Error ''Executable does not exist''), 0)"
  by code_simp

end
